theory Spec2Isabelle
  imports Main
begin

section \<open>Python and database primitives the handlers rely on\<close>

text \<open>
  The handlers of \<^verbatim>\<open>apps/forms/api.py\<close> call four primitives that are not part of
  the repository: \<^verbatim>\<open>int(...)\<close> (inside the primary-key lookup of the ORM),
  \<^verbatim>\<open>str(...)\<close> on an integer, \<^verbatim>\<open>str.title()\<close>, and the \<^verbatim>\<open>icontains\<close> lookup.
  The first three are written out here. A \<^typ>\<open>char\<close> is read as a code point below
  256; \<^verbatim>\<open>title\<close> is given for the ASCII letters, the letters of the status words.
  The \<^verbatim>\<open>icontains\<close> lookup compares upper-cased text, and the upper-casing is the one
  of the database, which depends on its locale: it is a parameter of the model.
\<close>

definition is_space :: "char \<Rightarrow> bool" where
  "is_space c = (of_char c \<in> {9::nat, 10, 11, 12, 13, 32, 133, 160})"

definition is_digit :: "char \<Rightarrow> bool" where
  "is_digit c = (48 \<le> (of_char c :: nat) \<and> (of_char c :: nat) \<le> 57)"

definition digit_val :: "char \<Rightarrow> int" where
  "digit_val c = int (of_char c) - 48"

text \<open>Digits after the first one; a single underscore may separate two digits.\<close>

fun digits_from :: "int \<Rightarrow> string \<Rightarrow> int option" where
  "digits_from acc [] = Some acc"
| "digits_from acc [c] = (if is_digit c then Some (acc * 10 + digit_val c) else None)"
| "digits_from acc (c # d # ds) =
     (if is_digit c then digits_from (acc * 10 + digit_val c) (d # ds)
      else if c = CHR ''_'' \<and> is_digit d then digits_from (acc * 10 + digit_val d) ds
      else None)"

text \<open>The value of a run of digits read after the value \<open>acc\<close>.\<close>

definition digits_value :: "int \<Rightarrow> string \<Rightarrow> int" where
  "digits_value acc ds = foldl (\<lambda>a c. a * 10 + digit_val c) acc ds"

definition strip :: "string \<Rightarrow> string" where
  "strip s = rev (dropWhile is_space (rev (dropWhile is_space s)))"

text \<open>CPython refuses to convert a string of more than 4300 digits (its default limit).\<close>

definition int_max_str_digits :: nat where
  "int_max_str_digits = 4300"

definition digits :: "string \<Rightarrow> int option" where
  "digits s = (case s of
       [] \<Rightarrow> None
     | c # cs \<Rightarrow>
         if \<not> is_digit c then None
         else if int_max_str_digits < length (filter is_digit s) then None
         else digits_from (digit_val c) cs)"

text \<open>\<^verbatim>\<open>int(s)\<close> for a string: \<open>None\<close> stands for the \<^verbatim>\<open>ValueError\<close>.\<close>

definition py_int :: "string \<Rightarrow> int option" where
  "py_int s = (case strip s of
       [] \<Rightarrow> None
     | c # cs \<Rightarrow>
         if c = CHR ''-'' then map_option uminus (digits cs)
         else if c = CHR ''+'' then digits cs
         else digits (c # cs))"

definition digit_char :: "nat \<Rightarrow> char" where
  "digit_char n = ''0123456789'' ! (n mod 10)"

fun str_nat :: "nat \<Rightarrow> string" where
  "str_nat n = (if n < 10 then [digit_char n]
                else str_nat (n div 10) @ [digit_char (n mod 10)])"

declare str_nat.simps [simp del]

text \<open>\<^verbatim>\<open>str(i)\<close> for an integer.\<close>

definition py_str :: "int \<Rightarrow> string" where
  "py_str i = (if i < 0 then CHR ''-'' # str_nat (nat (- i)) else str_nat (nat i))"

definition is_lower :: "char \<Rightarrow> bool" where
  "is_lower c = (97 \<le> (of_char c :: nat) \<and> (of_char c :: nat) \<le> 122)"

definition is_upper :: "char \<Rightarrow> bool" where
  "is_upper c = (65 \<le> (of_char c :: nat) \<and> (of_char c :: nat) \<le> 90)"

definition upper :: "char \<Rightarrow> char" where
  "upper c = (if is_lower c then char_of ((of_char c :: nat) - 32) else c)"

definition lower :: "char \<Rightarrow> char" where
  "lower c = (if is_upper c then char_of ((of_char c :: nat) + 32) else c)"

text \<open>
  \<^verbatim>\<open>s.title()\<close>: a cased character is upper-cased when the character before it is not
  cased, and lower-cased otherwise. The flag is \<^verbatim>\<open>previous_is_cased\<close>.
\<close>

fun title_from :: "bool \<Rightarrow> string \<Rightarrow> string" where
  "title_from prev [] = []"
| "title_from prev (c # cs) =
     (if is_lower c \<or> is_upper c
      then (if prev then lower c else upper c) # title_from True cs
      else c # title_from False cs)"

definition title :: "string \<Rightarrow> string" where
  "title s = title_from False s"

text \<open>Substring test, as \<^verbatim>\<open>LIKE '%needle%'\<close> with the wildcards of the needle escaped.\<close>

fun contains :: "'a list \<Rightarrow> 'a list \<Rightarrow> bool" where
  "contains [] needle = (needle = [])"
| "contains (c # cs) needle = (take (length needle) (c # cs) = needle \<or> contains cs needle)"

text \<open>
  \<^verbatim>\<open>field__icontains=needle\<close>, that is \<^verbatim>\<open>UPPER(field) LIKE UPPER('%needle%')\<close>: both
  sides are upper-cased by the database, then the substring test. The function \<open>up\<close>
  is the \<^verbatim>\<open>UPPER\<close> of the database.
\<close>

definition icontains :: "(string \<Rightarrow> string) \<Rightarrow> string \<Rightarrow> string \<Rightarrow> bool" where
  "icontains up hay needle = contains (up hay) (up needle)"

text \<open>
  What the specification calls a case-insensitive substring match: the needle occurs in
  the text once letter case is ignored on both sides, letter case being what the
  upper-casing \<open>up\<close> of the database removes.
\<close>

definition case_insensitive_substring :: "(string \<Rightarrow> string) \<Rightarrow> string \<Rightarrow> string \<Rightarrow> bool" where
  "case_insensitive_substring up needle hay = (\<exists>pre post. up hay = pre @ up needle @ post)"

text \<open>The upper-casing of a database whose locale is \<^verbatim>\<open>C\<close>: the ASCII letters only.\<close>

definition ascii_upper :: "string \<Rightarrow> string" where
  "ascii_upper s = map upper s"

section \<open>Data model\<close>

text \<open>A calendar date (\<^verbatim>\<open>datetime.date\<close>).\<close>

datatype date = Date (year: nat) (month: nat) (day: nat)

text \<open>
  A user is known to the handlers through its primary key only (\<^verbatim>\<open>user.id\<close>); the
  user table is the set of primary keys in use.
\<close>

type_synonym user = int
type_synonym user_table = "int set"

text \<open>
  Exceptions that the ORM calls of the handlers raise: the two of the primary-key lookup,
  which the inner \<^verbatim>\<open>except (User.DoesNotExist, ValueError)\<close> catches, and those of
  a statement sent to the database, which reach the outer \<^verbatim>\<open>except Exception\<close>: the
  unique constraint is violated, a value is too long for its column, or a text value
  holds the NUL character, which the database adapter refuses to send. Each carries the
  text that \<^verbatim>\<open>str(e)\<close> returns; the backend chooses it.
\<close>

datatype lookup_exn = DoesNotExist | ValueError

datatype db_exn = IntegrityError string | DataError string | NulCharacterError string

fun exn_text :: "db_exn \<Rightarrow> string" where
  "exn_text (IntegrityError msg) = msg"
| "exn_text (DataError msg) = msg"
| "exn_text (NulCharacterError msg) = msg"

subsection \<open>Request schemas (\<^verbatim>\<open>schemas.py\<close>)\<close>

record WheelSpecificationFieldsSchema =
  tread_diameter_new :: string
  last_shop_issue_size :: string
  condemning_dia :: string
  wheel_gauge :: string
  variation_same_axle :: string
  variation_same_bogie :: string
  variation_same_coach :: string
  wheel_profile :: string
  intermediate_wwp :: string
  bearing_seat_diameter :: string
  roller_bearing_outer_dia :: string
  roller_bearing_bore_dia :: string
  roller_bearing_width :: string
  axle_box_housing_bore_dia :: string
  wheel_disc_width :: string

record WheelSpecificationCreateSchema =
  form_number :: string
  submitted_by :: string
  submitted_date :: date
  fields_in :: WheelSpecificationFieldsSchema

record BogieDetailsSchema =
  bogie_no :: string
  maker_year_built :: string
  incoming_div_and_date :: string
  deficit_components :: string
  date_of_ioh :: date

record BogieChecksheetSchema =
  bogie_frame_condition :: string
  bolster :: string
  bolster_suspension_bracket :: string
  lower_spring_seat :: string
  axle_guide :: string

record BMBCChecksheetSchema =
  cylinder_body :: string
  piston_trunnion :: string
  adjusting_tube :: string
  plunger_spring :: string

record BogieChecksheetCreateSchema =
  bc_in_form_number :: string
  inspection_by :: string
  inspection_date :: date
  bogie_details :: BogieDetailsSchema
  bogie_checksheet :: BogieChecksheetSchema
  bmbc_checksheet :: BMBCChecksheetSchema

subsection \<open>Stored rows (\<^verbatim>\<open>models.py\<close>)\<close>

text \<open>
  A row of table \<^verbatim>\<open>wheel_specifications\<close>. The foreign key holds the user's primary
  key. The two timestamps \<^verbatim>\<open>created_at\<close> and \<^verbatim>\<open>updated_at\<close> are left out: no handler
  reads them, and the table is kept in the order of \<^verbatim>\<open>ordering = ['-created_at']\<close>,
  newest row first.
\<close>

record WheelSpecification =
  ws_form_number :: string
  ws_submitted_by :: user
  ws_submitted_date :: date
  ws_tread_diameter_new :: string
  ws_last_shop_issue_size :: string
  ws_condemning_dia :: string
  ws_wheel_gauge :: string
  ws_variation_same_axle :: string
  ws_variation_same_bogie :: string
  ws_variation_same_coach :: string
  ws_wheel_profile :: string
  ws_intermediate_wwp :: string
  ws_bearing_seat_diameter :: string
  ws_roller_bearing_outer_dia :: string
  ws_roller_bearing_bore_dia :: string
  ws_roller_bearing_width :: string
  ws_axle_box_housing_bore_dia :: string
  ws_wheel_disc_width :: string
  ws_status :: string

text \<open>A row of table \<^verbatim>\<open>bogie_checksheets\<close>, with the same conventions.\<close>

record BogieChecksheet =
  bc_form_number :: string
  bc_inspection_by :: user
  bc_inspection_date :: date
  bc_bogie_no :: string
  bc_maker_year_built :: string
  bc_incoming_div_and_date :: string
  bc_deficit_components :: string
  bc_date_of_ioh :: date
  bc_bogie_frame_condition :: string
  bc_bolster :: string
  bc_bolster_suspension_bracket :: string
  bc_lower_spring_seat :: string
  bc_axle_guide :: string
  bc_cylinder_body :: string
  bc_piston_trunnion :: string
  bc_adjusting_tube :: string
  bc_plunger_spring :: string
  bc_status :: string

text \<open>
  The \<^verbatim>\<open>choices\<close> that \<^verbatim>\<open>models.py\<close> declares for the condition columns: the
  documented vocabulary of the five bogie conditions and of the four BMBC conditions.
\<close>

definition bogie_frame_condition_choices :: "string list" where
  "bogie_frame_condition_choices = [''Good'', ''Fair'', ''Poor'', ''Damaged'']"

definition bolster_choices :: "string list" where
  "bolster_choices = [''Good'', ''Fair'', ''Poor'', ''Damaged'']"

definition bolster_suspension_bracket_choices :: "string list" where
  "bolster_suspension_bracket_choices = [''Good'', ''Fair'', ''Poor'', ''Cracked'', ''Damaged'']"

definition lower_spring_seat_choices :: "string list" where
  "lower_spring_seat_choices = [''Good'', ''Fair'', ''Poor'', ''Damaged'']"

definition axle_guide_choices :: "string list" where
  "axle_guide_choices = [''Good'', ''Fair'', ''Worn'', ''Damaged'']"

definition bmbc_choices :: "string list" where
  "bmbc_choices = [''GOOD'', ''FAIR'', ''WORN OUT'', ''DAMAGED'']"

text \<open>The \<^verbatim>\<open>default\<close> of the status column of both tables.\<close>

definition status_default :: string where
  "status_default = ''saved''"

subsection \<open>Responses\<close>

text \<open>The camelCase field group of a listed wheel specification.\<close>

record WheelFieldsOut =
  treadDiameterNew :: string
  lastShopIssueSize :: string
  condemningDia :: string
  wheelGauge :: string
  variationSameAxle :: string
  variationSameBogie :: string
  variationSameCoach :: string
  wheelProfile :: string
  intermediateWWP :: string
  bearingSeatDiameter :: string
  rollerBearingOuterDia :: string
  rollerBearingBoreDia :: string
  rollerBearingWidth :: string
  axleBoxHousingBoreDia :: string
  wheelDiscWidth :: string

text \<open>
  \<^verbatim>\<open>WheelSpecificationResponseDataSchema\<close>: the create handler leaves \<open>fields\<close> out,
  the list handler fills it.
\<close>

record WheelSpecificationResponseData =
  formNumber :: string
  submittedBy :: string
  submittedDate :: date
  status :: string
  fieldsOut :: "WheelFieldsOut option"

record BogieDetailsResponseSchema =
  bogieNo :: string
  makerYearBuilt :: string
  incomingDivAndDate :: string
  deficitComponents :: string
  dateOfIOH :: date

record BogieChecksheetResponseSchema =
  bogieFrameCondition :: string
  bolsterOut :: string
  bolsterSuspensionBracket :: string
  lowerSpringSeat :: string
  axleGuide :: string

record BMBCChecksheetResponseSchema =
  cylinderBody :: string
  pistonTrunnion :: string
  adjustingTube :: string
  plungerSpring :: string

text \<open>
  \<^verbatim>\<open>BogieChecksheetResponseDataSchema\<close>: the create handler leaves the three groups
  out, the list handler fills them.
\<close>

record BogieChecksheetResponseData =
  bc_formNumber :: string
  inspectionBy :: string
  inspectionDate :: date
  bc_status_out :: string
  bogieDetails :: "BogieDetailsResponseSchema option"
  bogieChecksheet :: "BogieChecksheetResponseSchema option"
  bmbcChecksheet :: "BMBCChecksheetResponseSchema option"

text \<open>
  The envelope every handler returns next to the HTTP status code: the dictionary with
  keys \<^verbatim>\<open>success\<close>, \<^verbatim>\<open>message\<close> and either \<^verbatim>\<open>data\<close> or \<^verbatim>\<open>errors\<close>.
\<close>

record 'd envelope =
  success :: bool
  message :: string
  data :: "'d option"
  errors :: "(string \<times> string list) list option"

type_synonym 'd response = "nat \<times> 'd envelope"

section \<open>ORM calls\<close>

text \<open>
  \<^verbatim>\<open>User.objects.get(id=ref)\<close>: the reference is converted with \<^verbatim>\<open>int\<close>, then looked
  up by primary key.
\<close>

definition User_objects_get :: "user_table \<Rightarrow> string \<Rightarrow> lookup_exn + user" where
  "User_objects_get users ref =
     (case py_int ref of
        None \<Rightarrow> Inl ValueError
      | Some n \<Rightarrow> if n \<in> users then Inr n else Inl DoesNotExist)"

text \<open>\<^verbatim>\<open>WheelSpecification.objects.filter(form_number=f).exists()\<close>\<close>

definition wheel_form_number_exists :: "WheelSpecification list \<Rightarrow> string \<Rightarrow> bool" where
  "wheel_form_number_exists tbl f = (filter (\<lambda>r. ws_form_number r = f) tbl \<noteq> [])"

text \<open>
  What the configured backend (PostgreSQL) does with a text value on its way into a
  column. A value holding the NUL character is refused. A \<^verbatim>\<open>CharField\<close> of
  \<^verbatim>\<open>max_length\<close> \<open>n\<close> is a column of \<open>n\<close> characters: a longer value is refused,
  unless the characters beyond the first \<open>n\<close> are all spaces; these are then cut off.
  \<^verbatim>\<open>create\<close> does not run the validators of the model, so nothing else looks at the
  values. A value \<open>fits\<close> when it is stored as it is.
\<close>

definition has_nul :: "string \<Rightarrow> bool" where
  "has_nul s = (CHR 0x00 \<in> set s)"

definition blank :: "char \<Rightarrow> bool" where
  "blank c = (c = CHR '' '')"

definition too_long :: "nat \<Rightarrow> string \<Rightarrow> bool" where
  "too_long n s = (\<not> list_all blank (drop n s))"

definition fits :: "nat \<Rightarrow> string \<Rightarrow> bool" where
  "fits n s = (\<not> has_nul s \<and> length s \<le> n)"

text \<open>
  The \<^verbatim>\<open>CharField\<close> columns of a wheel specification with their \<^verbatim>\<open>max_length\<close>, and
  the row as the table keeps it.
\<close>

definition wheel_varchars :: "WheelSpecification \<Rightarrow> (nat \<times> string) list" where
  "wheel_varchars r =
     [(50, ws_form_number r),
      (100, ws_tread_diameter_new r),
      (100, ws_last_shop_issue_size r),
      (100, ws_condemning_dia r),
      (100, ws_wheel_gauge r),
      (50, ws_variation_same_axle r),
      (50, ws_variation_same_bogie r),
      (50, ws_variation_same_coach r),
      (100, ws_wheel_profile r),
      (100, ws_intermediate_wwp r),
      (100, ws_bearing_seat_diameter r),
      (100, ws_roller_bearing_outer_dia r),
      (100, ws_roller_bearing_bore_dia r),
      (100, ws_roller_bearing_width r),
      (100, ws_axle_box_housing_bore_dia r),
      (100, ws_wheel_disc_width r),
      (20, ws_status r)]"

definition wheel_stored :: "WheelSpecification \<Rightarrow> WheelSpecification" where
  "wheel_stored r =
     \<lparr>ws_form_number = take 50 (ws_form_number r),
      ws_submitted_by = ws_submitted_by r,
      ws_submitted_date = ws_submitted_date r,
      ws_tread_diameter_new = take 100 (ws_tread_diameter_new r),
      ws_last_shop_issue_size = take 100 (ws_last_shop_issue_size r),
      ws_condemning_dia = take 100 (ws_condemning_dia r),
      ws_wheel_gauge = take 100 (ws_wheel_gauge r),
      ws_variation_same_axle = take 50 (ws_variation_same_axle r),
      ws_variation_same_bogie = take 50 (ws_variation_same_bogie r),
      ws_variation_same_coach = take 50 (ws_variation_same_coach r),
      ws_wheel_profile = take 100 (ws_wheel_profile r),
      ws_intermediate_wwp = take 100 (ws_intermediate_wwp r),
      ws_bearing_seat_diameter = take 100 (ws_bearing_seat_diameter r),
      ws_roller_bearing_outer_dia = take 100 (ws_roller_bearing_outer_dia r),
      ws_roller_bearing_bore_dia = take 100 (ws_roller_bearing_bore_dia r),
      ws_roller_bearing_width = take 100 (ws_roller_bearing_width r),
      ws_axle_box_housing_bore_dia = take 100 (ws_axle_box_housing_bore_dia r),
      ws_wheel_disc_width = take 100 (ws_wheel_disc_width r),
      ws_status = take 20 (ws_status r)\<rparr>"

text \<open>Every text value of the row is stored as it is.\<close>

definition wheel_fits :: "WheelSpecification \<Rightarrow> bool" where
  "wheel_fits r = list_all (\<lambda>(n, s). fits n s) (wheel_varchars r)"

text \<open>
  \<^verbatim>\<open>WheelSpecification.objects.create(...)\<close>: the insert. The adapter refuses NUL
  before the statement is sent, the database then checks the lengths, then the unique
  constraint that \<^verbatim>\<open>unique=True\<close> puts on \<^verbatim>\<open>form_number\<close>; \<open>msg\<close> is the text of
  the error raised. The new row is the newest.
\<close>

definition WheelSpecification_objects_create ::
  "string \<Rightarrow> WheelSpecification list \<Rightarrow> WheelSpecification \<Rightarrow> db_exn + WheelSpecification list" where
  "WheelSpecification_objects_create msg tbl row =
     (if list_ex (\<lambda>(n, s). has_nul s) (wheel_varchars row)
      then Inl (NulCharacterError msg)
      else if list_ex (\<lambda>(n, s). too_long n s) (wheel_varchars row)
      then Inl (DataError msg)
      else if wheel_form_number_exists tbl (ws_form_number (wheel_stored row))
      then Inl (IntegrityError msg)
      else Inr (wheel_stored row # tbl))"

text \<open>\<^verbatim>\<open>BogieChecksheet.objects.filter(form_number=f).exists()\<close>\<close>

definition bogie_form_number_exists :: "BogieChecksheet list \<Rightarrow> string \<Rightarrow> bool" where
  "bogie_form_number_exists tbl f = (filter (\<lambda>r. bc_form_number r = f) tbl \<noteq> [])"

text \<open>
  The \<^verbatim>\<open>CharField\<close> columns of a bogie checksheet with their \<^verbatim>\<open>max_length\<close>, and the
  row as the table keeps it. \<^verbatim>\<open>deficit_components\<close> is a \<^verbatim>\<open>TextField\<close>, a column
  without a length.
\<close>

definition bogie_varchars :: "BogieChecksheet \<Rightarrow> (nat \<times> string) list" where
  "bogie_varchars r =
     [(50, bc_form_number r),
      (50, bc_bogie_no r),
      (100, bc_maker_year_built r),
      (200, bc_incoming_div_and_date r),
      (50, bc_bogie_frame_condition r),
      (50, bc_bolster r),
      (50, bc_bolster_suspension_bracket r),
      (50, bc_lower_spring_seat r),
      (50, bc_axle_guide r),
      (50, bc_cylinder_body r),
      (50, bc_piston_trunnion r),
      (50, bc_adjusting_tube r),
      (50, bc_plunger_spring r),
      (20, bc_status r)]"

definition bogie_stored :: "BogieChecksheet \<Rightarrow> BogieChecksheet" where
  "bogie_stored r =
     \<lparr>bc_form_number = take 50 (bc_form_number r),
      bc_inspection_by = bc_inspection_by r,
      bc_inspection_date = bc_inspection_date r,
      bc_bogie_no = take 50 (bc_bogie_no r),
      bc_maker_year_built = take 100 (bc_maker_year_built r),
      bc_incoming_div_and_date = take 200 (bc_incoming_div_and_date r),
      bc_deficit_components = bc_deficit_components r,
      bc_date_of_ioh = bc_date_of_ioh r,
      bc_bogie_frame_condition = take 50 (bc_bogie_frame_condition r),
      bc_bolster = take 50 (bc_bolster r),
      bc_bolster_suspension_bracket = take 50 (bc_bolster_suspension_bracket r),
      bc_lower_spring_seat = take 50 (bc_lower_spring_seat r),
      bc_axle_guide = take 50 (bc_axle_guide r),
      bc_cylinder_body = take 50 (bc_cylinder_body r),
      bc_piston_trunnion = take 50 (bc_piston_trunnion r),
      bc_adjusting_tube = take 50 (bc_adjusting_tube r),
      bc_plunger_spring = take 50 (bc_plunger_spring r),
      bc_status = take 20 (bc_status r)\<rparr>"

definition bogie_fits :: "BogieChecksheet \<Rightarrow> bool" where
  "bogie_fits r =
     (list_all (\<lambda>(n, s). fits n s) (bogie_varchars r) \<and> \<not> has_nul (bc_deficit_components r))"

text \<open>\<^verbatim>\<open>BogieChecksheet.objects.create(...)\<close>, with the same three checks.\<close>

definition BogieChecksheet_objects_create ::
  "string \<Rightarrow> BogieChecksheet list \<Rightarrow> BogieChecksheet \<Rightarrow> db_exn + BogieChecksheet list" where
  "BogieChecksheet_objects_create msg tbl row =
     (if list_ex (\<lambda>(n, s). has_nul s) (bogie_varchars row) \<or> has_nul (bc_deficit_components row)
      then Inl (NulCharacterError msg)
      else if list_ex (\<lambda>(n, s). too_long n s) (bogie_varchars row)
      then Inl (DataError msg)
      else if bogie_form_number_exists tbl (bc_form_number (bogie_stored row))
      then Inl (IntegrityError msg)
      else Inr (bogie_stored row # tbl))"

section \<open>Wheel specification handlers\<close>

definition invalid_user :: "string \<Rightarrow> 'd response" where
  "invalid_user field =
     (400, \<lparr>success = False, message = ''Invalid user ID provided'', data = None,
            errors = Some [(field, [''User not found''])]\<rparr>)"

definition duplicate_form_number :: "'d response" where
  "duplicate_form_number =
     (400, \<lparr>success = False, message = ''Form number already exists'', data = None,
            errors = Some [(''form_number'', [''This form number is already in use''])]\<rparr>)"

definition general_error :: "string \<Rightarrow> db_exn \<Rightarrow> 'd response" where
  "general_error what e =
     (400, \<lparr>success = False, message = what @ exn_text e, data = None,
            errors = Some [(''general'', [exn_text e])]\<rparr>)"

text \<open>The row that \<^verbatim>\<open>create_wheel_specification\<close> hands to the insert.\<close>

definition wheel_row :: "WheelSpecificationCreateSchema \<Rightarrow> user \<Rightarrow> WheelSpecification" where
  "wheel_row payload u =
     \<lparr>ws_form_number = form_number payload,
      ws_submitted_by = u,
      ws_submitted_date = submitted_date payload,
      ws_tread_diameter_new = tread_diameter_new (fields_in payload),
      ws_last_shop_issue_size = last_shop_issue_size (fields_in payload),
      ws_condemning_dia = condemning_dia (fields_in payload),
      ws_wheel_gauge = wheel_gauge (fields_in payload),
      ws_variation_same_axle = variation_same_axle (fields_in payload),
      ws_variation_same_bogie = variation_same_bogie (fields_in payload),
      ws_variation_same_coach = variation_same_coach (fields_in payload),
      ws_wheel_profile = wheel_profile (fields_in payload),
      ws_intermediate_wwp = intermediate_wwp (fields_in payload),
      ws_bearing_seat_diameter = bearing_seat_diameter (fields_in payload),
      ws_roller_bearing_outer_dia = roller_bearing_outer_dia (fields_in payload),
      ws_roller_bearing_bore_dia = roller_bearing_bore_dia (fields_in payload),
      ws_roller_bearing_width = roller_bearing_width (fields_in payload),
      ws_axle_box_housing_bore_dia = axle_box_housing_bore_dia (fields_in payload),
      ws_wheel_disc_width = wheel_disc_width (fields_in payload),
      ws_status = ''submitted''\<rparr>"

text \<open>
  \<^verbatim>\<open>create_wheel_specification\<close>. The handler talks to the database twice: the query
  of the uniqueness check sees the table \<open>seen\<close>, the insert runs on the table \<open>tbl\<close>.
  The result is the response and the table after the request. Every exception of the
  insert ends in the outer \<^verbatim>\<open>except Exception\<close>. (A form number holding NUL is refused
  by the adapter already in the query of the uniqueness check; no stored form number
  holds NUL, so here that query finds nothing and the insert refuses the value, with the
  same answer and the same table.)
\<close>

definition create_wheel_specification_at ::
  "string \<Rightarrow> user_table \<Rightarrow> WheelSpecification list \<Rightarrow> WheelSpecification list \<Rightarrow>
   WheelSpecificationCreateSchema \<Rightarrow>
   WheelSpecificationResponseData response \<times> WheelSpecification list" where
  "create_wheel_specification_at msg users seen tbl payload =
     (case User_objects_get users (submitted_by payload) of
        Inl e \<Rightarrow> (invalid_user ''submitted_by'', tbl)
      | Inr u \<Rightarrow>
          if wheel_form_number_exists seen (form_number payload)
          then (duplicate_form_number, tbl)
          else (case WheelSpecification_objects_create msg tbl (wheel_row payload u) of
                  Inl e \<Rightarrow> (general_error ''Error creating wheel specification: '' e, tbl)
                | Inr tbl' \<Rightarrow>
                    let wheel_spec = wheel_row payload u in
                    ((201, \<lparr>success = True,
                            message = ''Wheel specification submitted successfully.'',
                            data = Some \<lparr>formNumber = ws_form_number wheel_spec,
                                         submittedBy = py_str (ws_submitted_by wheel_spec),
                                         submittedDate = ws_submitted_date wheel_spec,
                                         status = title (ws_status wheel_spec),
                                         fieldsOut = None\<rparr>,
                            errors = None\<rparr>), tbl')))"

text \<open>One request served alone: both database calls see the same table.\<close>

definition create_wheel_specification ::
  "string \<Rightarrow> user_table \<Rightarrow> WheelSpecification list \<Rightarrow> WheelSpecificationCreateSchema \<Rightarrow>
   WheelSpecificationResponseData response \<times> WheelSpecification list" where
  "create_wheel_specification msg users tbl payload =
     create_wheel_specification_at msg users tbl tbl payload"

text \<open>The dictionary built for one row in the loop of \<^verbatim>\<open>get_wheel_specifications\<close>.\<close>

definition wheel_response_data :: "WheelSpecification \<Rightarrow> WheelSpecificationResponseData" where
  "wheel_response_data spec =
     \<lparr>formNumber = ws_form_number spec,
      submittedBy = py_str (ws_submitted_by spec),
      submittedDate = ws_submitted_date spec,
      status = title (ws_status spec),
      fieldsOut = Some
        \<lparr>treadDiameterNew = ws_tread_diameter_new spec,
         lastShopIssueSize = ws_last_shop_issue_size spec,
         condemningDia = ws_condemning_dia spec,
         wheelGauge = ws_wheel_gauge spec,
         variationSameAxle = ws_variation_same_axle spec,
         variationSameBogie = ws_variation_same_bogie spec,
         variationSameCoach = ws_variation_same_coach spec,
         wheelProfile = ws_wheel_profile spec,
         intermediateWWP = ws_intermediate_wwp spec,
         bearingSeatDiameter = ws_bearing_seat_diameter spec,
         rollerBearingOuterDia = ws_roller_bearing_outer_dia spec,
         rollerBearingBoreDia = ws_roller_bearing_bore_dia spec,
         rollerBearingWidth = ws_roller_bearing_width spec,
         axleBoxHousingBoreDia = ws_axle_box_housing_bore_dia spec,
         wheelDiscWidth = ws_wheel_disc_width spec\<rparr>\<rparr>"

text \<open>
  A query parameter of type \<^verbatim>\<open>Optional[str]\<close> passes the test \<^verbatim>\<open>if param:\<close> when it
  is present and not the empty string. A date is always truthy.
\<close>

definition truthy :: "string option \<Rightarrow> bool" where
  "truthy p = (case p of None \<Rightarrow> False | Some s \<Rightarrow> s \<noteq> [])"

text \<open>
  \<^verbatim>\<open>get_wheel_specifications\<close>. The three \<^verbatim>\<open>if\<close> statements run in the order of the
  source; the queryset and the flag \<^verbatim>\<open>filters_applied\<close> are threaded through them.
  \<^verbatim>\<open>select_related\<close> fetches the user row of each record along with it; the id read
  from that row is the stored foreign key. The queryset is sent to the database when the
  \<^verbatim>\<open>for\<close> loop starts: a text filter holding NUL is refused there by the adapter, and
  the outer \<^verbatim>\<open>except Exception\<close> answers.
\<close>

definition get_wheel_specifications ::
  "string \<Rightarrow> (string \<Rightarrow> string) \<Rightarrow> user_table \<Rightarrow> WheelSpecification list \<Rightarrow>
   string option \<Rightarrow> string option \<Rightarrow> date option \<Rightarrow>
   WheelSpecificationResponseData list response" where
  "get_wheel_specifications msg up users tbl form_number_q submitted_by_q submitted_date_q =
     (let queryset = tbl; filters_applied = False;
          (queryset, filters_applied) =
             (if truthy form_number_q
              then (filter (\<lambda>r. icontains up (ws_form_number r) (the form_number_q)) queryset,
                    True)
              else (queryset, filters_applied))
      in case (if truthy submitted_by_q
               then (case User_objects_get users (the submitted_by_q) of
                       Inl e \<Rightarrow> Inl e
                     | Inr u \<Rightarrow> Inr (filter (\<lambda>r. ws_submitted_by r = u) queryset, True))
               else Inr (queryset, filters_applied)) of
           Inl e \<Rightarrow> invalid_user ''submitted_by''
         | Inr (queryset, filters_applied) \<Rightarrow>
             let (queryset, filters_applied) =
                   (case submitted_date_q of
                      Some d \<Rightarrow> (filter (\<lambda>r. ws_submitted_date r = d) queryset, True)
                    | None \<Rightarrow> (queryset, filters_applied))
             in if truthy form_number_q \<and> has_nul (the form_number_q)
                then general_error ''Error retrieving wheel specifications: ''
                       (NulCharacterError msg)
                else (200, \<lparr>success = True,
                       message = (if filters_applied
                                  then ''Filtered wheel specification forms fetched successfully.''
                                  else ''All wheel specification forms fetched successfully.''),
                       data = Some (map wheel_response_data queryset),
                       errors = None\<rparr>))"

section \<open>Bogie checksheet handlers\<close>

text \<open>The row that \<^verbatim>\<open>create_bogie_checksheet\<close> hands to the insert.\<close>

definition bogie_row :: "BogieChecksheetCreateSchema \<Rightarrow> user \<Rightarrow> BogieChecksheet" where
  "bogie_row payload u =
     \<lparr>bc_form_number = bc_in_form_number payload,
      bc_inspection_by = u,
      bc_inspection_date = inspection_date payload,
      bc_bogie_no = bogie_no (bogie_details payload),
      bc_maker_year_built = maker_year_built (bogie_details payload),
      bc_incoming_div_and_date = incoming_div_and_date (bogie_details payload),
      bc_deficit_components = deficit_components (bogie_details payload),
      bc_date_of_ioh = date_of_ioh (bogie_details payload),
      bc_bogie_frame_condition = bogie_frame_condition (bogie_checksheet payload),
      bc_bolster = bolster (bogie_checksheet payload),
      bc_bolster_suspension_bracket = bolster_suspension_bracket (bogie_checksheet payload),
      bc_lower_spring_seat = lower_spring_seat (bogie_checksheet payload),
      bc_axle_guide = axle_guide (bogie_checksheet payload),
      bc_cylinder_body = cylinder_body (bmbc_checksheet payload),
      bc_piston_trunnion = piston_trunnion (bmbc_checksheet payload),
      bc_adjusting_tube = adjusting_tube (bmbc_checksheet payload),
      bc_plunger_spring = plunger_spring (bmbc_checksheet payload),
      bc_status = ''submitted''\<rparr>"

text \<open>\<^verbatim>\<open>create_bogie_checksheet\<close>, with the two database calls as above.\<close>

definition create_bogie_checksheet_at ::
  "string \<Rightarrow> user_table \<Rightarrow> BogieChecksheet list \<Rightarrow> BogieChecksheet list \<Rightarrow>
   BogieChecksheetCreateSchema \<Rightarrow>
   BogieChecksheetResponseData response \<times> BogieChecksheet list" where
  "create_bogie_checksheet_at msg users seen tbl payload =
     (case User_objects_get users (inspection_by payload) of
        Inl e \<Rightarrow> (invalid_user ''inspection_by'', tbl)
      | Inr u \<Rightarrow>
          if bogie_form_number_exists seen (bc_in_form_number payload)
          then (duplicate_form_number, tbl)
          else (case BogieChecksheet_objects_create msg tbl (bogie_row payload u) of
                  Inl e \<Rightarrow> (general_error ''Error creating bogie checksheet: '' e, tbl)
                | Inr tbl' \<Rightarrow>
                    let checksheet = bogie_row payload u in
                    ((201, \<lparr>success = True,
                            message = ''Bogie checksheet submitted successfully.'',
                            data = Some \<lparr>bc_formNumber = bc_form_number checksheet,
                                         inspectionBy = py_str (bc_inspection_by checksheet),
                                         inspectionDate = bc_inspection_date checksheet,
                                         bc_status_out = title (bc_status checksheet),
                                         bogieDetails = None,
                                         bogieChecksheet = None,
                                         bmbcChecksheet = None\<rparr>,
                            errors = None\<rparr>), tbl')))"

definition create_bogie_checksheet ::
  "string \<Rightarrow> user_table \<Rightarrow> BogieChecksheet list \<Rightarrow> BogieChecksheetCreateSchema \<Rightarrow>
   BogieChecksheetResponseData response \<times> BogieChecksheet list" where
  "create_bogie_checksheet msg users tbl payload =
     create_bogie_checksheet_at msg users tbl tbl payload"

text \<open>The dictionary built for one row in the loop of \<^verbatim>\<open>get_bogie_checksheets\<close>.\<close>

definition bogie_response_data :: "BogieChecksheet \<Rightarrow> BogieChecksheetResponseData" where
  "bogie_response_data checksheet =
     \<lparr>bc_formNumber = bc_form_number checksheet,
      inspectionBy = py_str (bc_inspection_by checksheet),
      inspectionDate = bc_inspection_date checksheet,
      bc_status_out = title (bc_status checksheet),
      bogieDetails = Some
        \<lparr>bogieNo = bc_bogie_no checksheet,
         makerYearBuilt = bc_maker_year_built checksheet,
         incomingDivAndDate = bc_incoming_div_and_date checksheet,
         deficitComponents = bc_deficit_components checksheet,
         dateOfIOH = bc_date_of_ioh checksheet\<rparr>,
      bogieChecksheet = Some
        \<lparr>bogieFrameCondition = bc_bogie_frame_condition checksheet,
         bolsterOut = bc_bolster checksheet,
         bolsterSuspensionBracket = bc_bolster_suspension_bracket checksheet,
         lowerSpringSeat = bc_lower_spring_seat checksheet,
         axleGuide = bc_axle_guide checksheet\<rparr>,
      bmbcChecksheet = Some
        \<lparr>cylinderBody = bc_cylinder_body checksheet,
         pistonTrunnion = bc_piston_trunnion checksheet,
         adjustingTube = bc_adjusting_tube checksheet,
         plungerSpring = bc_plunger_spring checksheet\<rparr>\<rparr>"

text \<open>
  \<^verbatim>\<open>get_bogie_checksheets\<close>: four \<^verbatim>\<open>if\<close> statements, in the order of the source, and
  the same refusal of a text filter holding NUL when the queryset is sent.
\<close>

definition get_bogie_checksheets ::
  "string \<Rightarrow> (string \<Rightarrow> string) \<Rightarrow> user_table \<Rightarrow> BogieChecksheet list \<Rightarrow>
   string option \<Rightarrow> string option \<Rightarrow> date option \<Rightarrow> string option \<Rightarrow>
   BogieChecksheetResponseData list response" where
  "get_bogie_checksheets msg up users tbl form_number_q inspection_by_q inspection_date_q
     bogie_no_q =
     (let queryset = tbl; filters_applied = False;
          (queryset, filters_applied) =
             (if truthy form_number_q
              then (filter (\<lambda>r. icontains up (bc_form_number r) (the form_number_q)) queryset,
                    True)
              else (queryset, filters_applied))
      in case (if truthy inspection_by_q
               then (case User_objects_get users (the inspection_by_q) of
                       Inl e \<Rightarrow> Inl e
                     | Inr u \<Rightarrow> Inr (filter (\<lambda>r. bc_inspection_by r = u) queryset, True))
               else Inr (queryset, filters_applied)) of
           Inl e \<Rightarrow> invalid_user ''inspection_by''
         | Inr (queryset, filters_applied) \<Rightarrow>
             let (queryset, filters_applied) =
                   (case inspection_date_q of
                      Some d \<Rightarrow> (filter (\<lambda>r. bc_inspection_date r = d) queryset, True)
                    | None \<Rightarrow> (queryset, filters_applied));
                 (queryset, filters_applied) =
                   (if truthy bogie_no_q
                    then (filter (\<lambda>r. icontains up (bc_bogie_no r) (the bogie_no_q)) queryset,
                          True)
                    else (queryset, filters_applied))
             in if (truthy form_number_q \<and> has_nul (the form_number_q)) \<or>
                   (truthy bogie_no_q \<and> has_nul (the bogie_no_q))
                then general_error ''Error retrieving bogie checksheets: ''
                       (NulCharacterError msg)
                else (200, \<lparr>success = True,
                       message = (if filters_applied
                                  then ''Filtered bogie checksheet forms fetched successfully.''
                                  else ''All bogie checksheet forms fetched successfully.''),
                       data = Some (map bogie_response_data queryset),
                       errors = None\<rparr>))"

section \<open>The four operations on the record store\<close>

record database =
  wheel_specifications :: "WheelSpecification list"
  bogie_checksheets :: "BogieChecksheet list"

datatype request =
    PostWheelSpecification WheelSpecificationCreateSchema
  | GetWheelSpecifications "string option" "string option" "date option"
  | PostBogieChecksheet BogieChecksheetCreateSchema
  | GetBogieChecksheets "string option" "string option" "date option" "string option"

text \<open>The store after one request has been served; a list request only reads.\<close>

fun serve :: "string \<Rightarrow> user_table \<Rightarrow> database \<Rightarrow> request \<Rightarrow> database" where
  "serve msg users db (PostWheelSpecification payload) =
     db\<lparr>wheel_specifications :=
          snd (create_wheel_specification msg users (wheel_specifications db) payload)\<rparr>"
| "serve msg users db (GetWheelSpecifications f u d) = db"
| "serve msg users db (PostBogieChecksheet payload) =
     db\<lparr>bogie_checksheets :=
          snd (create_bogie_checksheet msg users (bogie_checksheets db) payload)\<rparr>"
| "serve msg users db (GetBogieChecksheets f u d b) = db"

text \<open>
  The stores that requests can build, starting from empty tables. The user table may
  differ from one request to the next.
\<close>

inductive reachable :: "database \<Rightarrow> bool" where
  empty: "reachable \<lparr>wheel_specifications = [], bogie_checksheets = []\<rparr>"
| request: "reachable db \<Longrightarrow> reachable (serve msg users db req)"

section \<open>Sample requests\<close>

definition sample_fields :: WheelSpecificationFieldsSchema where
  "sample_fields =
     \<lparr>tread_diameter_new = ''915 (900-1000)'',
      last_shop_issue_size = ''837 (800-900)'',
      condemning_dia = ''825 (800-900)'',
      wheel_gauge = ''1600 (+2,-1)'',
      variation_same_axle = ''0.5'',
      variation_same_bogie = ''5'',
      variation_same_coach = ''13'',
      wheel_profile = ''29.4 Flange Thickness'',
      intermediate_wwp = ''20 TO 28'',
      bearing_seat_diameter = ''130.043 TO 130.068'',
      roller_bearing_outer_dia = ''280 (+0.0/-0.035)'',
      roller_bearing_bore_dia = ''130 (+0.0/-0.025)'',
      roller_bearing_width = ''93 (+0/-0.250)'',
      axle_box_housing_bore_dia = ''280 (+0.030/+0.052)'',
      wheel_disc_width = ''127 (+4/-0)''\<rparr>"

definition sample_wheel :: "string \<Rightarrow> string \<Rightarrow> WheelSpecificationCreateSchema" where
  "sample_wheel f ref =
     \<lparr>form_number = f, submitted_by = ref, submitted_date = Date 2025 1 1,
      fields_in = sample_fields\<rparr>"

definition sample_bogie ::
  "string \<Rightarrow> string \<Rightarrow> string \<Rightarrow> string \<Rightarrow> BogieChecksheetCreateSchema" where
  "sample_bogie f ref cond bmbc =
     \<lparr>bc_in_form_number = f, inspection_by = ref, inspection_date = Date 2025 7 3,
      bogie_details =
        \<lparr>bogie_no = ''BG1234'', maker_year_built = ''RDSO/2018'',
         incoming_div_and_date = ''NR / 2025-06-25'', deficit_components = ''None'',
         date_of_ioh = Date 2025 7 1\<rparr>,
      bogie_checksheet =
        \<lparr>bogie_frame_condition = cond, bolster = cond, bolster_suspension_bracket = cond,
         lower_spring_seat = cond, axle_guide = cond\<rparr>,
      bmbc_checksheet =
        \<lparr>cylinder_body = bmbc, piston_trunnion = bmbc, adjusting_tube = bmbc,
         plunger_spring = bmbc\<rparr>\<rparr>"

section \<open>The list filters as the specification words them\<close>

text \<open>
  The restriction that the specification attaches to a list request: the conjunction of
  one predicate per supplied parameter, a text parameter being supplied when it is
  present and not empty. A text parameter asks for a case-insensitive substring match, a
  date parameter for equality, a user reference for equality of the record's user with
  the user the reference resolves to.
\<close>

definition wheel_filter_spec ::
  "(string \<Rightarrow> string) \<Rightarrow> user_table \<Rightarrow> string option \<Rightarrow> string option \<Rightarrow> date option \<Rightarrow>
   WheelSpecification \<Rightarrow> bool" where
  "wheel_filter_spec up users form_number_q submitted_by_q submitted_date_q r =
     ((if truthy form_number_q
       then case_insensitive_substring up (the form_number_q) (ws_form_number r)
       else True) \<and>
      (if truthy submitted_by_q
       then User_objects_get users (the submitted_by_q) = Inr (ws_submitted_by r)
       else True) \<and>
      (case submitted_date_q of
         None \<Rightarrow> True
       | Some d \<Rightarrow> ws_submitted_date r = d))"

definition bogie_filter_spec ::
  "(string \<Rightarrow> string) \<Rightarrow> user_table \<Rightarrow> string option \<Rightarrow> string option \<Rightarrow> date option \<Rightarrow>
   string option \<Rightarrow> BogieChecksheet \<Rightarrow> bool" where
  "bogie_filter_spec up users form_number_q inspection_by_q inspection_date_q bogie_no_q r =
     ((if truthy form_number_q
       then case_insensitive_substring up (the form_number_q) (bc_form_number r)
       else True) \<and>
      (if truthy inspection_by_q
       then User_objects_get users (the inspection_by_q) = Inr (bc_inspection_by r)
       else True) \<and>
      (case inspection_date_q of
         None \<Rightarrow> True
       | Some d \<Rightarrow> bc_inspection_date r = d) \<and>
      (if truthy bogie_no_q
       then case_insensitive_substring up (the bogie_no_q) (bc_bogie_no r)
       else True))"

text \<open>The nine condition values of a request each fit their column of 50 characters.\<close>

definition conditions_fit :: "BogieChecksheetSchema \<Rightarrow> BMBCChecksheetSchema \<Rightarrow> bool" where
  "conditions_fit c m =
     (fits 50 (bogie_frame_condition c) \<and> fits 50 (bolster c) \<and>
      fits 50 (bolster_suspension_bracket c) \<and> fits 50 (lower_spring_seat c) \<and>
      fits 50 (axle_guide c) \<and> fits 50 (cylinder_body m) \<and> fits 50 (piston_trunnion m) \<and>
      fits 50 (adjusting_tube m) \<and> fits 50 (plunger_spring m))"

section \<open>The round trip as the specification words it\<close>

text \<open>
  The documented renaming of keys from snake_case to camelCase; every value is kept.
\<close>

definition wheel_fields_renamed :: "WheelSpecificationFieldsSchema \<Rightarrow> WheelFieldsOut" where
  "wheel_fields_renamed f =
     \<lparr>treadDiameterNew = tread_diameter_new f,
      lastShopIssueSize = last_shop_issue_size f,
      condemningDia = condemning_dia f,
      wheelGauge = wheel_gauge f,
      variationSameAxle = variation_same_axle f,
      variationSameBogie = variation_same_bogie f,
      variationSameCoach = variation_same_coach f,
      wheelProfile = wheel_profile f,
      intermediateWWP = intermediate_wwp f,
      bearingSeatDiameter = bearing_seat_diameter f,
      rollerBearingOuterDia = roller_bearing_outer_dia f,
      rollerBearingBoreDia = roller_bearing_bore_dia f,
      rollerBearingWidth = roller_bearing_width f,
      axleBoxHousingBoreDia = axle_box_housing_bore_dia f,
      wheelDiscWidth = wheel_disc_width f\<rparr>"

definition bogie_details_renamed :: "BogieDetailsSchema \<Rightarrow> BogieDetailsResponseSchema" where
  "bogie_details_renamed d =
     \<lparr>bogieNo = bogie_no d, makerYearBuilt = maker_year_built d,
      incomingDivAndDate = incoming_div_and_date d, deficitComponents = deficit_components d,
      dateOfIOH = date_of_ioh d\<rparr>"

definition bogie_checksheet_renamed ::
  "BogieChecksheetSchema \<Rightarrow> BogieChecksheetResponseSchema" where
  "bogie_checksheet_renamed c =
     \<lparr>bogieFrameCondition = bogie_frame_condition c, bolsterOut = bolster c,
      bolsterSuspensionBracket = bolster_suspension_bracket c,
      lowerSpringSeat = lower_spring_seat c, axleGuide = axle_guide c\<rparr>"

definition bmbc_checksheet_renamed :: "BMBCChecksheetSchema \<Rightarrow> BMBCChecksheetResponseSchema" where
  "bmbc_checksheet_renamed m =
     \<lparr>cylinderBody = cylinder_body m, pistonTrunnion = piston_trunnion m,
      adjustingTube = adjusting_tube m, plungerSpring = plunger_spring m\<rparr>"

text \<open>
  The record that the round trip is expected to give back for a create request: the
  values of the request under the renamed keys, the status word capitalised, and a
  user reference \<open>ref\<close>.
\<close>

definition wheel_echo ::
  "WheelSpecificationCreateSchema \<Rightarrow> string \<Rightarrow> WheelSpecificationResponseData" where
  "wheel_echo p ref =
     \<lparr>formNumber = form_number p, submittedBy = ref, submittedDate = submitted_date p,
      status = ''Submitted'', fieldsOut = Some (wheel_fields_renamed (fields_in p))\<rparr>"

definition bogie_echo ::
  "BogieChecksheetCreateSchema \<Rightarrow> string \<Rightarrow> BogieChecksheetResponseData" where
  "bogie_echo p ref =
     \<lparr>bc_formNumber = bc_in_form_number p, inspectionBy = ref,
      inspectionDate = inspection_date p, bc_status_out = ''Submitted'',
      bogieDetails = Some (bogie_details_renamed (bogie_details p)),
      bogieChecksheet = Some (bogie_checksheet_renamed (bogie_checksheet p)),
      bmbcChecksheet = Some (bmbc_checksheet_renamed (bmbc_checksheet p))\<rparr>"

text \<open>A request with one measurement value of 51 characters, for a column of 50.\<close>

definition sample_long_wheel :: "string \<Rightarrow> string \<Rightarrow> WheelSpecificationCreateSchema" where
  "sample_long_wheel f ref =
     (sample_wheel f ref)
       \<lparr>fields_in := sample_fields\<lparr>variation_same_axle := replicate 51 CHR ''x''\<rparr>\<rparr>"

section \<open>Facts about the primitives\<close>

lemma title_submitted: "title ''submitted'' = ''Submitted''"
  by code_simp

lemmas py_int_defs =
  py_int_def strip_def is_space_def digits_def is_digit_def digit_val_def int_max_str_digits_def

lemma get_1: "User_objects_get {1} ''1'' = Inr 1"
  by (simp add: User_objects_get_def py_int_defs)

lemma get_01: "User_objects_get {1} ''01'' = Inr 1"
  by (simp add: User_objects_get_def py_int_defs)

lemma get_7: "User_objects_get {1} ''7'' = Inl DoesNotExist"
  by (simp add: User_objects_get_def py_int_defs)

lemma get_abc: "User_objects_get {1} ''abc'' = Inl ValueError"
  by (simp add: User_objects_get_def py_int_defs)

lemma get_empty: "User_objects_get users [] = Inl ValueError"
  by (simp add: User_objects_get_def py_int_def strip_def)

lemma py_str_1: "py_str 1 = ''1''"
  by (simp add: py_str_def str_nat.simps digit_char_def)

lemma wheel_exists_iff:
  "wheel_form_number_exists tbl f \<longleftrightarrow> (\<exists>r \<in> set tbl. ws_form_number r = f)"
  by (simp add: wheel_form_number_exists_def filter_empty_conv)

lemma bogie_exists_iff:
  "bogie_form_number_exists tbl f \<longleftrightarrow> (\<exists>r \<in> set tbl. bc_form_number r = f)"
  by (simp add: bogie_form_number_exists_def filter_empty_conv)

subsection \<open>A decimal string reads back as the integer it was written from\<close>

lemma digit_char_props:
  "d < 10 \<Longrightarrow> is_digit (digit_char d) \<and> digit_val (digit_char d) = int d"
proof -
  assume "d < 10"
  then have "d \<in> {0, 1, 2, 3, 4, 5, 6, 7, 8, 9}" by auto
  then show ?thesis
    by (auto simp: digit_char_def is_digit_def digit_val_def)
qed

lemma digits_from_all_digits:
  "list_all is_digit ds \<Longrightarrow> digits_from acc ds = Some (digits_value acc ds)"
  by (induction acc ds rule: digits_from.induct) (auto simp: digits_value_def)

lemma str_nat_digits: "list_all is_digit (str_nat k) \<and> str_nat k \<noteq> []"
proof (induction k rule: str_nat.induct)
  case (1 n)
  show ?case
  proof (cases "n < 10")
    case True
    then show ?thesis
      by (subst str_nat.simps, subst (2) str_nat.simps) (simp add: digit_char_props)
  next
    case False
    with 1 show ?thesis
      by (subst str_nat.simps, subst (2) str_nat.simps) (simp add: digit_char_props)
  qed
qed

lemma str_nat_value: "digits_value 0 (str_nat k) = int k"
proof (induction k rule: str_nat.induct)
  case (1 n)
  show ?case
  proof (cases "n < 10")
    case True
    then show ?thesis
      by (subst str_nat.simps) (simp add: digits_value_def digit_char_props)
  next
    case False
    with 1 have "digits_value 0 (str_nat (n div 10)) = int (n div 10)" by simp
    with False show ?thesis
      by (subst str_nat.simps) (simp add: digits_value_def digit_char_props zdiv_int zmod_int)
  qed
qed

lemma digit_not_space: "is_digit c \<Longrightarrow> \<not> is_space c \<and> c \<noteq> CHR ''-'' \<and> c \<noteq> CHR ''+''"
  by (auto simp: is_digit_def is_space_def)

lemma strip_no_space:
  assumes "xs \<noteq> []" "\<not> is_space (hd xs)" "\<not> is_space (last xs)"
  shows "strip xs = xs"
proof -
  from assms have a: "dropWhile is_space xs = xs"
    by (cases xs) simp_all
  from assms have "dropWhile is_space (rev xs) = rev xs"
    by (cases "rev xs") (simp_all add: hd_rev)
  with a show ?thesis by (simp add: strip_def)
qed

lemma digits_str_nat: "digits (str_nat k) = Some m \<Longrightarrow> m = int k"
proof -
  assume d: "digits (str_nat k) = Some m"
  from str_nat_digits [of k] obtain c cs where s: "str_nat k = c # cs"
    by (cases "str_nat k") auto
  with str_nat_digits [of k] have c: "is_digit c" and cs: "list_all is_digit cs"
    by simp_all
  from d s c have "digits_from (digit_val c) cs = Some m"
    by (simp add: digits_def split: if_splits)
  with cs have "m = digits_value (digit_val c) cs"
    by (simp add: digits_from_all_digits)
  also have "\<dots> = digits_value 0 (c # cs)"
    by (simp add: digits_value_def)
  also have "\<dots> = int k"
    using str_nat_value [of k] s by simp
  finally show ?thesis .
qed

lemma strip_str_nat: "strip (str_nat k) = str_nat k"
proof (rule strip_no_space)
  show "str_nat k \<noteq> []" using str_nat_digits by simp
  show "\<not> is_space (hd (str_nat k))"
    using str_nat_digits [of k] by (cases "str_nat k") (auto dest: digit_not_space)
  show "\<not> is_space (last (str_nat k))"
    using str_nat_digits [of k]
    by (cases "str_nat k" rule: rev_cases) (auto dest: digit_not_space)
qed

lemma strip_minus_str_nat: "strip (CHR ''-'' # str_nat k) = CHR ''-'' # str_nat k"
proof (rule strip_no_space)
  show "CHR ''-'' # str_nat k \<noteq> []" by simp
  show "\<not> is_space (hd (CHR ''-'' # str_nat k))" by (simp add: is_space_def)
  show "\<not> is_space (last (CHR ''-'' # str_nat k))"
    using str_nat_digits [of k]
    by (cases "str_nat k" rule: rev_cases) (auto dest: digit_not_space)
qed

lemma py_int_py_str: "py_int (py_str n) = Some m \<Longrightarrow> m = n"
proof (cases "n < 0")
  case True
  assume "py_int (py_str n) = Some m"
  with True have "map_option uminus (digits (str_nat (nat (- n)))) = Some m"
    by (simp add: py_int_def py_str_def strip_minus_str_nat)
  then obtain k where "digits (str_nat (nat (- n))) = Some k" "m = - k"
    by auto
  with True show ?thesis by (auto dest: digits_str_nat)
next
  case False
  assume a: "py_int (py_str n) = Some m"
  from str_nat_digits [of "nat n"] obtain c cs where s: "str_nat (nat n) = c # cs"
    by (cases "str_nat (nat n)") auto
  with str_nat_digits [of "nat n"] have "is_digit c" by simp
  then have "c \<noteq> CHR ''-''" "c \<noteq> CHR ''+''" by (auto dest: digit_not_space)
  with a False s have "digits (str_nat (nat n)) = Some m"
    using strip_str_nat [of "nat n"] by (simp add: py_int_def py_str_def)
  with False show ?thesis by (auto dest: digits_str_nat)
qed

lemma canonical_reference:
  "User_objects_get users (py_str n) = Inr u \<Longrightarrow> py_str u = py_str n"
  by (auto simp: User_objects_get_def split: option.splits if_splits dest: py_int_py_str)

section \<open>Values that fit their columns\<close>

lemma fits_stored: "fits n s \<Longrightarrow> \<not> has_nul s \<and> \<not> too_long n s \<and> take n s = s"
  by (simp add: fits_def too_long_def)

lemma wheel_fits_create:
  assumes "wheel_fits r"
  shows "WheelSpecification_objects_create msg tbl r =
     (if wheel_form_number_exists tbl (ws_form_number r) then Inl (IntegrityError msg)
      else Inr (r # tbl))"
proof -
  from assms have s: "wheel_stored r = r"
    by (simp add: wheel_fits_def wheel_varchars_def wheel_stored_def fits_def)
  from assms have "\<not> list_ex (\<lambda>(n, s). has_nul s) (wheel_varchars r)"
    and "\<not> list_ex (\<lambda>(n, s). too_long n s) (wheel_varchars r)"
    by (simp_all add: wheel_fits_def wheel_varchars_def fits_def too_long_def)
  with s show ?thesis
    by (simp add: WheelSpecification_objects_create_def)
qed

lemma bogie_fits_create:
  assumes "bogie_fits r"
  shows "BogieChecksheet_objects_create msg tbl r =
     (if bogie_form_number_exists tbl (bc_form_number r) then Inl (IntegrityError msg)
      else Inr (r # tbl))"
proof -
  from assms have s: "bogie_stored r = r"
    by (simp add: bogie_fits_def bogie_varchars_def bogie_stored_def fits_def)
  from assms have "\<not> list_ex (\<lambda>(n, s). has_nul s) (bogie_varchars r)"
    and "\<not> list_ex (\<lambda>(n, s). too_long n s) (bogie_varchars r)"
    and "\<not> has_nul (bc_deficit_components r)"
    by (simp_all add: bogie_fits_def bogie_varchars_def fits_def too_long_def)
  with s show ?thesis
    by (simp add: BogieChecksheet_objects_create_def)
qed

lemma sample_wheel_fits: "fits 50 f \<Longrightarrow> wheel_fits (wheel_row (sample_wheel f ref) u)"
  by (simp add: wheel_fits_def wheel_varchars_def wheel_row_def sample_wheel_def
      sample_fields_def)
     (simp add: fits_def has_nul_def)

lemma sample_bogie_fits:
  "fits 50 f \<Longrightarrow> fits 50 c \<Longrightarrow> fits 50 m \<Longrightarrow>
   bogie_fits (bogie_row (sample_bogie f ref c m) u)"
  by (simp add: bogie_fits_def bogie_varchars_def bogie_row_def sample_bogie_def)
     (simp add: fits_def has_nul_def)

lemma fits_samples:
  "fits 50 ''WHEEL-1''" "fits 50 ''WHEEL-2''" "fits 50 ''AXLE-1''" "fits 50 ''AXLE-9''"
  "fits 50 ''A''" "fits 50 ''AB''" "fits 50 ''BOGIE-1''" "fits 50 ''BOGIE-2''"
  "fits 50 ''BOGIE-7''" "fits 50 ''Good''" "fits 50 ''GOOD''" "fits 50 ''Fair''"
  "fits 50 ''FAIR''" "fits 50 ''Poor''" "fits 50 ''Banana''" "fits 50 ''rusty''"
  by (simp_all add: fits_def has_nul_def)

section \<open>The branches of the create handlers\<close>

lemma wheel_row_form_number: "ws_form_number (wheel_row p u) = form_number p"
  by (simp add: wheel_row_def)

lemma bogie_row_form_number: "bc_form_number (bogie_row p u) = bc_in_form_number p"
  by (simp add: bogie_row_def)

lemma wheel_create_unresolved:
  "User_objects_get users (submitted_by p) = Inl e \<Longrightarrow>
   create_wheel_specification_at msg users seen tbl p = (invalid_user ''submitted_by'', tbl)"
  by (simp add: create_wheel_specification_at_def)

lemma bogie_create_unresolved:
  "User_objects_get users (inspection_by p) = Inl e \<Longrightarrow>
   create_bogie_checksheet_at msg users seen tbl p = (invalid_user ''inspection_by'', tbl)"
  by (simp add: create_bogie_checksheet_at_def)

lemma wheel_create_duplicate:
  "User_objects_get users (submitted_by p) = Inr u \<Longrightarrow>
   wheel_form_number_exists seen (form_number p) \<Longrightarrow>
   create_wheel_specification_at msg users seen tbl p = (duplicate_form_number, tbl)"
  by (simp add: create_wheel_specification_at_def)

lemma bogie_create_duplicate:
  "User_objects_get users (inspection_by p) = Inr u \<Longrightarrow>
   bogie_form_number_exists seen (bc_in_form_number p) \<Longrightarrow>
   create_bogie_checksheet_at msg users seen tbl p = (duplicate_form_number, tbl)"
  by (simp add: create_bogie_checksheet_at_def)

lemma wheel_create_fresh:
  "User_objects_get users (submitted_by p) = Inr u \<Longrightarrow>
   \<not> wheel_form_number_exists seen (form_number p) \<Longrightarrow>
   \<not> wheel_form_number_exists tbl (form_number p) \<Longrightarrow>
   wheel_fits (wheel_row p u) \<Longrightarrow>
   create_wheel_specification_at msg users seen tbl p =
     ((201, \<lparr>success = True, message = ''Wheel specification submitted successfully.'',
             data = Some \<lparr>formNumber = form_number p, submittedBy = py_str u,
                          submittedDate = submitted_date p, status = ''Submitted'',
                          fieldsOut = None\<rparr>,
             errors = None\<rparr>), wheel_row p u # tbl)"
  by (simp add: create_wheel_specification_at_def wheel_fits_create
      wheel_row_form_number Let_def)
     (simp add: wheel_row_def title_submitted)

lemma bogie_create_fresh:
  "User_objects_get users (inspection_by p) = Inr u \<Longrightarrow>
   \<not> bogie_form_number_exists seen (bc_in_form_number p) \<Longrightarrow>
   \<not> bogie_form_number_exists tbl (bc_in_form_number p) \<Longrightarrow>
   bogie_fits (bogie_row p u) \<Longrightarrow>
   create_bogie_checksheet_at msg users seen tbl p =
     ((201, \<lparr>success = True, message = ''Bogie checksheet submitted successfully.'',
             data = Some \<lparr>bc_formNumber = bc_in_form_number p, inspectionBy = py_str u,
                          inspectionDate = inspection_date p, bc_status_out = ''Submitted'',
                          bogieDetails = None, bogieChecksheet = None,
                          bmbcChecksheet = None\<rparr>,
             errors = None\<rparr>), bogie_row p u # tbl)"
  by (simp add: create_bogie_checksheet_at_def bogie_fits_create
      bogie_row_form_number Let_def)
     (simp add: bogie_row_def title_submitted)

lemma wheel_create_refused:
  "User_objects_get users (submitted_by p) = Inr u \<Longrightarrow>
   \<not> wheel_form_number_exists seen (form_number p) \<Longrightarrow>
   WheelSpecification_objects_create msg tbl (wheel_row p u) = Inl e \<Longrightarrow>
   create_wheel_specification_at msg users seen tbl p =
     (general_error ''Error creating wheel specification: '' e, tbl)"
  by (simp add: create_wheel_specification_at_def)

lemma bogie_create_refused:
  "User_objects_get users (inspection_by p) = Inr u \<Longrightarrow>
   \<not> bogie_form_number_exists seen (bc_in_form_number p) \<Longrightarrow>
   BogieChecksheet_objects_create msg tbl (bogie_row p u) = Inl e \<Longrightarrow>
   create_bogie_checksheet_at msg users seen tbl p =
     (general_error ''Error creating bogie checksheet: '' e, tbl)"
  by (simp add: create_bogie_checksheet_at_def)

section \<open>Creating a record\<close>

text \<open>
  Claim C1. Whenever the table already holds a record with the form number of the
  request and the user reference of the request resolves, the create handler answers
  400 with \<open>success = False\<close> and the duplicate-form-number error, whatever the other
  fields of the request are, and the table is unchanged. This holds for wheel
  specifications and for bogie checksheets.
\<close>

theorem duplicate_form_number_rejected:
  "((\<exists>r \<in> set wtbl. ws_form_number r = form_number wp) \<and>
    User_objects_get users (submitted_by wp) = Inr wu \<longrightarrow>
      create_wheel_specification msg users wtbl wp =
        ((400, \<lparr>success = False, message = ''Form number already exists'', data = None,
                errors = Some [(''form_number'', [''This form number is already in use''])]\<rparr>),
         wtbl)) \<and>
   ((\<exists>r \<in> set btbl. bc_form_number r = bc_in_form_number bp) \<and>
    User_objects_get users (inspection_by bp) = Inr bu \<longrightarrow>
      create_bogie_checksheet msg users btbl bp =
        ((400, \<lparr>success = False, message = ''Form number already exists'', data = None,
                errors = Some [(''form_number'', [''This form number is already in use''])]\<rparr>),
         btbl))"
  using wheel_create_duplicate [of users wp wu wtbl msg wtbl]
    bogie_create_duplicate [of users bp bu btbl msg btbl]
  by (simp add: create_wheel_specification_def create_bogie_checksheet_def
      wheel_exists_iff bogie_exists_iff duplicate_form_number_def)

theorem duplicate_form_number_rejected_witness:
  "create_wheel_specification ''e'' {1} [wheel_row (sample_wheel ''WHEEL-1'' ''1'') 1]
     ((sample_wheel ''WHEEL-1'' ''01'')\<lparr>submitted_date := Date 2026 2 2\<rparr>) =
     ((400, \<lparr>success = False, message = ''Form number already exists'', data = None,
             errors = Some [(''form_number'', [''This form number is already in use''])]\<rparr>),
      [wheel_row (sample_wheel ''WHEEL-1'' ''1'') 1]) \<and>
   create_bogie_checksheet ''e'' {1} [bogie_row (sample_bogie ''BOGIE-1'' ''1'' ''Good'' ''GOOD'') 1]
     (sample_bogie ''BOGIE-1'' ''1'' ''Poor'' ''FAIR'') =
     ((400, \<lparr>success = False, message = ''Form number already exists'', data = None,
             errors = Some [(''form_number'', [''This form number is already in use''])]\<rparr>),
      [bogie_row (sample_bogie ''BOGIE-1'' ''1'' ''Good'' ''GOOD'') 1])"
  using duplicate_form_number_rejected
    [where wtbl = "[wheel_row (sample_wheel ''WHEEL-1'' ''1'') 1]"
       and wp = "(sample_wheel ''WHEEL-1'' ''01'')\<lparr>submitted_date := Date 2026 2 2\<rparr>"
       and users = "{1}" and wu = 1 and bu = 1 and msg = "''e''"
       and btbl = "[bogie_row (sample_bogie ''BOGIE-1'' ''1'' ''Good'' ''GOOD'') 1]"
       and bp = "sample_bogie ''BOGIE-1'' ''1'' ''Poor'' ''FAIR''"]
  by (simp add: sample_wheel_def sample_bogie_def wheel_row_form_number bogie_row_form_number
      get_1 get_01)

text \<open>
  Claim C2. Whenever the submitter or inspector reference of a create request does not
  resolve to a user, the handler answers 400 with \<open>success = False\<close>, the invalid-user
  message and an error on the reference field, and the table after the request is the
  table before it.
\<close>

theorem unresolved_reference_rejected:
  "(User_objects_get users (submitted_by wp) = Inl we \<longrightarrow>
      create_wheel_specification msg users wtbl wp =
        ((400, \<lparr>success = False, message = ''Invalid user ID provided'', data = None,
                errors = Some [(''submitted_by'', [''User not found''])]\<rparr>), wtbl)) \<and>
   (User_objects_get users (inspection_by bp) = Inl be \<longrightarrow>
      create_bogie_checksheet msg users btbl bp =
        ((400, \<lparr>success = False, message = ''Invalid user ID provided'', data = None,
                errors = Some [(''inspection_by'', [''User not found''])]\<rparr>), btbl))"
  using wheel_create_unresolved [of users wp we msg wtbl wtbl]
    bogie_create_unresolved [of users bp be msg btbl btbl]
  by (simp add: create_wheel_specification_def create_bogie_checksheet_def invalid_user_def)

theorem unresolved_reference_rejected_witness:
  "User_objects_get {1} ''7'' = Inl DoesNotExist \<and>
   User_objects_get {1} ''abc'' = Inl ValueError \<and>
   create_wheel_specification ''e'' {1} [] (sample_wheel ''WHEEL-1'' ''7'') =
     ((400, \<lparr>success = False, message = ''Invalid user ID provided'', data = None,
             errors = Some [(''submitted_by'', [''User not found''])]\<rparr>), []) \<and>
   create_bogie_checksheet ''e'' {1} [] (sample_bogie ''BOGIE-1'' ''abc'' ''Good'' ''GOOD'') =
     ((400, \<lparr>success = False, message = ''Invalid user ID provided'', data = None,
             errors = Some [(''inspection_by'', [''User not found''])]\<rparr>), [])"
  using unresolved_reference_rejected
    [where users = "{1}" and wp = "sample_wheel ''WHEEL-1'' ''7''" and we = DoesNotExist
       and bp = "sample_bogie ''BOGIE-1'' ''abc'' ''Good'' ''GOOD''" and be = ValueError
       and msg = "''e''" and wtbl = "[]" and btbl = "[]"]
  by (simp add: sample_wheel_def sample_bogie_def get_7 get_abc)

text \<open>
  Claim C6. The user reference is checked before the form number: a create request
  whose reference does not resolve and whose form number is already stored is answered
  with the invalid-user error, not with the duplicate-form-number error.
\<close>

theorem reference_checked_before_form_number:
  "(User_objects_get users (submitted_by wp) = Inl we \<and>
    (\<exists>r \<in> set wtbl. ws_form_number r = form_number wp) \<longrightarrow>
      fst (create_wheel_specification msg users wtbl wp) =
        (400, \<lparr>success = False, message = ''Invalid user ID provided'', data = None,
               errors = Some [(''submitted_by'', [''User not found''])]\<rparr>) \<and>
      fst (create_wheel_specification msg users wtbl wp) \<noteq> duplicate_form_number) \<and>
   (User_objects_get users (inspection_by bp) = Inl be \<and>
    (\<exists>r \<in> set btbl. bc_form_number r = bc_in_form_number bp) \<longrightarrow>
      fst (create_bogie_checksheet msg users btbl bp) =
        (400, \<lparr>success = False, message = ''Invalid user ID provided'', data = None,
               errors = Some [(''inspection_by'', [''User not found''])]\<rparr>) \<and>
      fst (create_bogie_checksheet msg users btbl bp) \<noteq> duplicate_form_number)"
  using wheel_create_unresolved [of users wp we msg wtbl wtbl]
    bogie_create_unresolved [of users bp be msg btbl btbl]
  by (simp add: create_wheel_specification_def create_bogie_checksheet_def invalid_user_def
      duplicate_form_number_def)

theorem reference_checked_before_form_number_witness:
  "User_objects_get {1} ''7'' = Inl DoesNotExist \<and>
   wheel_form_number_exists [wheel_row (sample_wheel ''WHEEL-1'' ''1'') 1] ''WHEEL-1'' \<and>
   fst (create_wheel_specification ''e'' {1} [wheel_row (sample_wheel ''WHEEL-1'' ''1'') 1]
          (sample_wheel ''WHEEL-1'' ''7'')) =
     (400, \<lparr>success = False, message = ''Invalid user ID provided'', data = None,
            errors = Some [(''submitted_by'', [''User not found''])]\<rparr>) \<and>
   User_objects_get {1} ''abc'' = Inl ValueError \<and>
   bogie_form_number_exists [bogie_row (sample_bogie ''BOGIE-1'' ''1'' ''Good'' ''GOOD'') 1] ''BOGIE-1'' \<and>
   fst (create_bogie_checksheet ''e'' {1} [bogie_row (sample_bogie ''BOGIE-1'' ''1'' ''Good'' ''GOOD'') 1]
          (sample_bogie ''BOGIE-1'' ''abc'' ''Good'' ''GOOD'')) =
     (400, \<lparr>success = False, message = ''Invalid user ID provided'', data = None,
            errors = Some [(''inspection_by'', [''User not found''])]\<rparr>)"
  using reference_checked_before_form_number
    [where users = "{1}" and wp = "sample_wheel ''WHEEL-1'' ''7''" and we = DoesNotExist
       and wtbl = "[wheel_row (sample_wheel ''WHEEL-1'' ''1'') 1]"
       and bp = "sample_bogie ''BOGIE-1'' ''abc'' ''Good'' ''GOOD''" and be = ValueError
       and btbl = "[bogie_row (sample_bogie ''BOGIE-1'' ''1'' ''Good'' ''GOOD'') 1]"
       and msg = "''e''"]
  by (simp add: sample_wheel_def sample_bogie_def get_7 get_abc wheel_exists_iff bogie_exists_iff
      wheel_row_form_number bogie_row_form_number)

text \<open>
  Claim C3, as amended. Whenever the user reference of a create request resolves, no
  stored record has the form number of the request, and every text value of the request
  fits its column (no NUL character, at most the declared number of characters), the
  handler stores a new record whose status is the string \<open>submitted\<close> (not the
  default \<open>saved\<close> of the model) and answers 201 with \<open>success = True\<close> and a
  payload made of the form number, the resolved user's id written as a string, the date
  of the request and the status word \<open>Submitted\<close>.
\<close>

theorem create_persists_submitted:
  "(User_objects_get users (submitted_by wp) = Inr wu \<and>
    \<not> (\<exists>r \<in> set wtbl. ws_form_number r = form_number wp) \<and>
    wheel_fits (wheel_row wp wu) \<longrightarrow>
      create_wheel_specification msg users wtbl wp =
        ((201, \<lparr>success = True, message = ''Wheel specification submitted successfully.'',
                data = Some \<lparr>formNumber = form_number wp, submittedBy = py_str wu,
                             submittedDate = submitted_date wp, status = ''Submitted'',
                             fieldsOut = None\<rparr>,
                errors = None\<rparr>), wheel_row wp wu # wtbl) \<and>
      ws_status (wheel_row wp wu) = ''submitted'' \<and>
      ws_status (wheel_row wp wu) \<noteq> status_default) \<and>
   (User_objects_get users (inspection_by bp) = Inr bu \<and>
    \<not> (\<exists>r \<in> set btbl. bc_form_number r = bc_in_form_number bp) \<and>
    bogie_fits (bogie_row bp bu) \<longrightarrow>
      create_bogie_checksheet msg users btbl bp =
        ((201, \<lparr>success = True, message = ''Bogie checksheet submitted successfully.'',
                data = Some \<lparr>bc_formNumber = bc_in_form_number bp, inspectionBy = py_str bu,
                             inspectionDate = inspection_date bp, bc_status_out = ''Submitted'',
                             bogieDetails = None, bogieChecksheet = None,
                             bmbcChecksheet = None\<rparr>,
                errors = None\<rparr>), bogie_row bp bu # btbl) \<and>
      bc_status (bogie_row bp bu) = ''submitted'' \<and>
      bc_status (bogie_row bp bu) \<noteq> status_default)"
proof (intro conjI impI)
  assume h: "User_objects_get users (submitted_by wp) = Inr wu \<and>
    \<not> (\<exists>r \<in> set wtbl. ws_form_number r = form_number wp) \<and>
    wheel_fits (wheel_row wp wu)"
  then have fresh: "\<not> wheel_form_number_exists wtbl (form_number wp)"
    by (simp add: wheel_exists_iff)
  from h fresh show "create_wheel_specification msg users wtbl wp =
        ((201, \<lparr>success = True, message = ''Wheel specification submitted successfully.'',
                data = Some \<lparr>formNumber = form_number wp, submittedBy = py_str wu,
                             submittedDate = submitted_date wp, status = ''Submitted'',
                             fieldsOut = None\<rparr>,
                errors = None\<rparr>), wheel_row wp wu # wtbl)"
    unfolding create_wheel_specification_def by (simp add: wheel_create_fresh)
next
  assume h: "User_objects_get users (inspection_by bp) = Inr bu \<and>
    \<not> (\<exists>r \<in> set btbl. bc_form_number r = bc_in_form_number bp) \<and>
    bogie_fits (bogie_row bp bu)"
  then have fresh: "\<not> bogie_form_number_exists btbl (bc_in_form_number bp)"
    by (simp add: bogie_exists_iff)
  from h fresh show "create_bogie_checksheet msg users btbl bp =
        ((201, \<lparr>success = True, message = ''Bogie checksheet submitted successfully.'',
                data = Some \<lparr>bc_formNumber = bc_in_form_number bp, inspectionBy = py_str bu,
                             inspectionDate = inspection_date bp, bc_status_out = ''Submitted'',
                             bogieDetails = None, bogieChecksheet = None,
                             bmbcChecksheet = None\<rparr>,
                errors = None\<rparr>), bogie_row bp bu # btbl)"
    unfolding create_bogie_checksheet_def by (simp add: bogie_create_fresh)
qed (simp_all add: wheel_row_def bogie_row_def status_default_def)

theorem create_persists_submitted_witness:
  "wheel_fits (wheel_row (sample_wheel ''WHEEL-1'' ''1'') 1) \<and>
   create_wheel_specification ''e'' {1} [] (sample_wheel ''WHEEL-1'' ''1'') =
     ((201, \<lparr>success = True, message = ''Wheel specification submitted successfully.'',
             data = Some \<lparr>formNumber = ''WHEEL-1'', submittedBy = ''1'',
                          submittedDate = Date 2025 1 1, status = ''Submitted'',
                          fieldsOut = None\<rparr>,
             errors = None\<rparr>), [wheel_row (sample_wheel ''WHEEL-1'' ''1'') 1]) \<and>
   ws_status (wheel_row (sample_wheel ''WHEEL-1'' ''1'') 1) = ''submitted'' \<and>
   bogie_fits (bogie_row (sample_bogie ''BOGIE-1'' ''1'' ''Good'' ''GOOD'') 1) \<and>
   create_bogie_checksheet ''e'' {1} [] (sample_bogie ''BOGIE-1'' ''1'' ''Good'' ''GOOD'') =
     ((201, \<lparr>success = True, message = ''Bogie checksheet submitted successfully.'',
             data = Some \<lparr>bc_formNumber = ''BOGIE-1'', inspectionBy = ''1'',
                          inspectionDate = Date 2025 7 3, bc_status_out = ''Submitted'',
                          bogieDetails = None, bogieChecksheet = None,
                          bmbcChecksheet = None\<rparr>,
             errors = None\<rparr>), [bogie_row (sample_bogie ''BOGIE-1'' ''1'' ''Good'' ''GOOD'') 1]) \<and>
   bc_status (bogie_row (sample_bogie ''BOGIE-1'' ''1'' ''Good'' ''GOOD'') 1) = ''submitted''"
  using create_persists_submitted
    [where users = "{1}" and wp = "sample_wheel ''WHEEL-1'' ''1''" and wu = 1 and wtbl = "[]"
       and bp = "sample_bogie ''BOGIE-1'' ''1'' ''Good'' ''GOOD''" and bu = 1 and btbl = "[]"
       and msg = "''e''"]
  by (simp add: sample_wheel_fits sample_bogie_fits fits_samples)
     (simp add: sample_wheel_def sample_bogie_def get_1 py_str_1)

text \<open>
  The claim as stated fails. The reference resolves and the form number is fresh, but
  one measurement value has 51 characters where its column has 50: the insert is
  refused, the answer is 400 with the general error, and nothing is stored.
\<close>

theorem create_persists_submitted_counterexample:
  "User_objects_get {1} (submitted_by (sample_long_wheel ''WHEEL-1'' ''1'')) = Inr 1 \<and>
   \<not> wheel_form_number_exists [] (form_number (sample_long_wheel ''WHEEL-1'' ''1'')) \<and>
   length (variation_same_axle (fields_in (sample_long_wheel ''WHEEL-1'' ''1''))) = 51 \<and>
   create_wheel_specification ''value too long'' {1} [] (sample_long_wheel ''WHEEL-1'' ''1'') =
     ((400, \<lparr>success = False,
             message = ''Error creating wheel specification: value too long'',
             data = None, errors = Some [(''general'', [''value too long''])]\<rparr>), [])"
proof -
  let ?p = "sample_long_wheel ''WHEEL-1'' ''1''"
  have u: "User_objects_get {1} (submitted_by ?p) = Inr 1"
    by (simp add: sample_long_wheel_def sample_wheel_def get_1)
  have seen: "\<not> wheel_form_number_exists [] (form_number ?p)"
    by (simp add: wheel_form_number_exists_def)
  have len: "length (variation_same_axle (fields_in ?p)) = 51"
    by (simp add: sample_long_wheel_def)
  have ins: "WheelSpecification_objects_create ''value too long'' [] (wheel_row ?p 1) =
      Inl (DataError ''value too long'')"
    by (simp add: WheelSpecification_objects_create_def wheel_varchars_def wheel_row_def
        sample_long_wheel_def sample_wheel_def sample_fields_def has_nul_def too_long_def
        blank_def)
  from u seen len wheel_create_refused [OF u seen ins] show ?thesis
    by (simp add: create_wheel_specification_def general_error_def)
qed

text \<open>
  Claim C7, as amended. When the uniqueness check of a create request passes and the
  insert is nevertheless refused by the unique constraint on the form number (another
  request stored that form number in between), the handler answers 400 with the
  general error: its message is the fixed prefix followed by the text of the database
  error, and the error list is filed under \<open>general\<close>. The table is left as the
  insert found it.
\<close>

theorem insert_rejection_is_general_error:
  "(User_objects_get users (submitted_by wp) = Inr wu \<and>
    \<not> wheel_form_number_exists wseen (form_number wp) \<and>
    WheelSpecification_objects_create msg wtbl (wheel_row wp wu) = Inl (IntegrityError msg) \<longrightarrow>
      create_wheel_specification_at msg users wseen wtbl wp =
        ((400, \<lparr>success = False, message = ''Error creating wheel specification: '' @ msg,
                data = None, errors = Some [(''general'', [msg])]\<rparr>), wtbl)) \<and>
   (User_objects_get users (inspection_by bp) = Inr bu \<and>
    \<not> bogie_form_number_exists bseen (bc_in_form_number bp) \<and>
    BogieChecksheet_objects_create msg btbl (bogie_row bp bu) = Inl (IntegrityError msg) \<longrightarrow>
      create_bogie_checksheet_at msg users bseen btbl bp =
        ((400, \<lparr>success = False, message = ''Error creating bogie checksheet: '' @ msg,
                data = None, errors = Some [(''general'', [msg])]\<rparr>), btbl))"
proof (intro conjI impI)
  assume "User_objects_get users (submitted_by wp) = Inr wu \<and>
    \<not> wheel_form_number_exists wseen (form_number wp) \<and>
    WheelSpecification_objects_create msg wtbl (wheel_row wp wu) = Inl (IntegrityError msg)"
  then show "create_wheel_specification_at msg users wseen wtbl wp =
        ((400, \<lparr>success = False, message = ''Error creating wheel specification: '' @ msg,
                data = None, errors = Some [(''general'', [msg])]\<rparr>), wtbl)"
    by (simp add: wheel_create_refused general_error_def)
next
  assume "User_objects_get users (inspection_by bp) = Inr bu \<and>
    \<not> bogie_form_number_exists bseen (bc_in_form_number bp) \<and>
    BogieChecksheet_objects_create msg btbl (bogie_row bp bu) = Inl (IntegrityError msg)"
  then show "create_bogie_checksheet_at msg users bseen btbl bp =
        ((400, \<lparr>success = False, message = ''Error creating bogie checksheet: '' @ msg,
                data = None, errors = Some [(''general'', [msg])]\<rparr>), btbl)"
    by (simp add: bogie_create_refused general_error_def)
qed

theorem insert_rejection_is_general_error_witness:
  "\<not> wheel_form_number_exists [] ''WHEEL-1'' \<and>
   create_wheel_specification_at ''duplicate key'' {1} []
       [wheel_row (sample_wheel ''WHEEL-1'' ''1'') 1] (sample_wheel ''WHEEL-1'' ''1'') =
     ((400, \<lparr>success = False,
             message = ''Error creating wheel specification: duplicate key'',
             data = None, errors = Some [(''general'', [''duplicate key''])]\<rparr>),
      [wheel_row (sample_wheel ''WHEEL-1'' ''1'') 1]) \<and>
   \<not> bogie_form_number_exists [] ''BOGIE-1'' \<and>
   create_bogie_checksheet_at ''duplicate key'' {1} []
       [bogie_row (sample_bogie ''BOGIE-1'' ''1'' ''Good'' ''GOOD'') 1]
       (sample_bogie ''BOGIE-1'' ''1'' ''Good'' ''GOOD'') =
     ((400, \<lparr>success = False,
             message = ''Error creating bogie checksheet: duplicate key'',
             data = None, errors = Some [(''general'', [''duplicate key''])]\<rparr>),
      [bogie_row (sample_bogie ''BOGIE-1'' ''1'' ''Good'' ''GOOD'') 1])"
  using insert_rejection_is_general_error
    [where users = "{1}" and wp = "sample_wheel ''WHEEL-1'' ''1''" and wu = 1 and wseen = "[]"
       and wtbl = "[wheel_row (sample_wheel ''WHEEL-1'' ''1'') 1]"
       and bp = "sample_bogie ''BOGIE-1'' ''1'' ''Good'' ''GOOD''" and bu = 1 and bseen = "[]"
       and btbl = "[bogie_row (sample_bogie ''BOGIE-1'' ''1'' ''Good'' ''GOOD'') 1]"
       and msg = "''duplicate key''"]
  by (simp add: wheel_fits_create bogie_fits_create sample_wheel_fits sample_bogie_fits
      fits_samples wheel_row_form_number bogie_row_form_number)
     (simp add: sample_wheel_def sample_bogie_def get_1 wheel_form_number_exists_def
      bogie_form_number_exists_def wheel_row_form_number bogie_row_form_number)

text \<open>
  The claim as stated fails. The uniqueness check sees an empty table, the insert finds
  the form number taken and is refused, and the answer is the general error carrying
  the text of the database error; it is not the duplicate-form-number answer.
\<close>

theorem insert_rejection_counterexample:
  "User_objects_get {1} (submitted_by (sample_wheel ''WHEEL-1'' ''1'')) = Inr 1 \<and>
   \<not> wheel_form_number_exists [] (form_number (sample_wheel ''WHEEL-1'' ''1'')) \<and>
   WheelSpecification_objects_create ''duplicate key''
       [wheel_row (sample_wheel ''WHEEL-1'' ''1'') 1]
       (wheel_row (sample_wheel ''WHEEL-1'' ''1'') 1) = Inl (IntegrityError ''duplicate key'') \<and>
   fst (create_wheel_specification_at ''duplicate key'' {1} []
          [wheel_row (sample_wheel ''WHEEL-1'' ''1'') 1] (sample_wheel ''WHEEL-1'' ''1'')) \<noteq>
     duplicate_form_number \<and>
   message (snd (fst (create_wheel_specification_at ''duplicate key'' {1} []
          [wheel_row (sample_wheel ''WHEEL-1'' ''1'') 1] (sample_wheel ''WHEEL-1'' ''1'')))) =
     ''Error creating wheel specification: duplicate key''"
proof -
  have u: "User_objects_get {1} (submitted_by (sample_wheel ''WHEEL-1'' ''1'')) = Inr 1"
    by (simp add: sample_wheel_def get_1)
  have seen: "\<not> wheel_form_number_exists [] (form_number (sample_wheel ''WHEEL-1'' ''1''))"
    by (simp add: wheel_form_number_exists_def)
  have taken: "wheel_form_number_exists [wheel_row (sample_wheel ''WHEEL-1'' ''1'') 1]
      (form_number (sample_wheel ''WHEEL-1'' ''1''))"
    by (simp add: wheel_form_number_exists_def wheel_row_form_number)
  have ins: "WheelSpecification_objects_create ''duplicate key''
       [wheel_row (sample_wheel ''WHEEL-1'' ''1'') 1]
       (wheel_row (sample_wheel ''WHEEL-1'' ''1'') 1) = Inl (IntegrityError ''duplicate key'')"
    using taken
    by (simp add: wheel_fits_create sample_wheel_fits fits_samples wheel_row_form_number)
  note r = wheel_create_refused [OF u seen ins]
  show ?thesis
    using u seen ins by (simp add: r general_error_def duplicate_form_number_def)
qed

text \<open>
  Claim C8, as amended. The nine condition fields of a bogie checksheet (five bogie
  conditions, four BMBC conditions) are not checked against their documented
  vocabulary. When the inspector resolves, the form number is fresh and every text value
  of the request fits its column (for a condition: no NUL character, at most 50
  characters), the create succeeds whatever the nine strings are, and the stored row
  holds each of them unchanged. Among condition values that fit, the HTTP status of the
  answer does not depend on the two condition groups of the request.
\<close>

theorem condition_vocabulary_not_enforced:
  "(User_objects_get users (inspection_by bp) = Inr bu \<and>
    \<not> (\<exists>r \<in> set btbl. bc_form_number r = bc_in_form_number bp) \<and>
    bogie_fits (bogie_row bp bu) \<longrightarrow>
      fst (fst (create_bogie_checksheet msg users btbl bp)) = 201 \<and>
      success (snd (fst (create_bogie_checksheet msg users btbl bp))) \<and>
      snd (create_bogie_checksheet msg users btbl bp) = bogie_row bp bu # btbl \<and>
      bc_bogie_frame_condition (bogie_row bp bu) = bogie_frame_condition (bogie_checksheet bp) \<and>
      bc_bolster (bogie_row bp bu) = bolster (bogie_checksheet bp) \<and>
      bc_bolster_suspension_bracket (bogie_row bp bu) =
        bolster_suspension_bracket (bogie_checksheet bp) \<and>
      bc_lower_spring_seat (bogie_row bp bu) = lower_spring_seat (bogie_checksheet bp) \<and>
      bc_axle_guide (bogie_row bp bu) = axle_guide (bogie_checksheet bp) \<and>
      bc_cylinder_body (bogie_row bp bu) = cylinder_body (bmbc_checksheet bp) \<and>
      bc_piston_trunnion (bogie_row bp bu) = piston_trunnion (bmbc_checksheet bp) \<and>
      bc_adjusting_tube (bogie_row bp bu) = adjusting_tube (bmbc_checksheet bp) \<and>
      bc_plunger_spring (bogie_row bp bu) = plunger_spring (bmbc_checksheet bp)) \<and>
   (conditions_fit (bogie_checksheet bp) (bmbc_checksheet bp) \<and> conditions_fit conds bmbc \<longrightarrow>
      fst (fst (create_bogie_checksheet msg users btbl
                  (bp\<lparr>bogie_checksheet := conds, bmbc_checksheet := bmbc\<rparr>))) =
        fst (fst (create_bogie_checksheet msg users btbl bp)))"
proof (intro conjI impI)
  assume h: "User_objects_get users (inspection_by bp) = Inr bu \<and>
    \<not> (\<exists>r \<in> set btbl. bc_form_number r = bc_in_form_number bp) \<and>
    bogie_fits (bogie_row bp bu)"
  then have fresh: "\<not> bogie_form_number_exists btbl (bc_in_form_number bp)"
    by (simp add: bogie_exists_iff)
  from h have u: "User_objects_get users (inspection_by bp) = Inr bu"
    and f: "bogie_fits (bogie_row bp bu)" by simp_all
  note ok = bogie_create_fresh [OF u fresh fresh f, of msg]
  show "fst (fst (create_bogie_checksheet msg users btbl bp)) = 201"
    by (simp add: create_bogie_checksheet_def ok)
  show "success (snd (fst (create_bogie_checksheet msg users btbl bp)))"
    by (simp add: create_bogie_checksheet_def ok)
  show "snd (create_bogie_checksheet msg users btbl bp) = bogie_row bp bu # btbl"
    by (simp add: create_bogie_checksheet_def ok)
next
  assume "conditions_fit (bogie_checksheet bp) (bmbc_checksheet bp) \<and> conditions_fit conds bmbc"
  then show "fst (fst (create_bogie_checksheet msg users btbl
                  (bp\<lparr>bogie_checksheet := conds, bmbc_checksheet := bmbc\<rparr>))) =
        fst (fst (create_bogie_checksheet msg users btbl bp))"
    by (simp add: create_bogie_checksheet_def create_bogie_checksheet_at_def
        BogieChecksheet_objects_create_def bogie_varchars_def bogie_stored_def bogie_row_def
        conditions_fit_def fits_def too_long_def invalid_user_def duplicate_form_number_def
        general_error_def Let_def split: sum.splits)
qed (simp_all add: bogie_row_def)

theorem condition_vocabulary_not_enforced_witness:
  "''Banana'' \<notin> set bogie_frame_condition_choices \<and>
   ''Banana'' \<notin> set bolster_choices \<and>
   ''Banana'' \<notin> set bolster_suspension_bracket_choices \<and>
   ''Banana'' \<notin> set lower_spring_seat_choices \<and>
   ''Banana'' \<notin> set axle_guide_choices \<and>
   ''rusty'' \<notin> set bmbc_choices \<and>
   bogie_fits (bogie_row (sample_bogie ''BOGIE-1'' ''1'' ''Banana'' ''rusty'') 1) \<and>
   fst (fst (create_bogie_checksheet ''e'' {1} []
               (sample_bogie ''BOGIE-1'' ''1'' ''Banana'' ''rusty''))) = 201 \<and>
   map bc_bolster (snd (create_bogie_checksheet ''e'' {1} []
               (sample_bogie ''BOGIE-1'' ''1'' ''Banana'' ''rusty''))) = [''Banana''] \<and>
   map bc_plunger_spring (snd (create_bogie_checksheet ''e'' {1} []
               (sample_bogie ''BOGIE-1'' ''1'' ''Banana'' ''rusty''))) = [''rusty'']"
  using condition_vocabulary_not_enforced
    [where users = "{1}" and bp = "sample_bogie ''BOGIE-1'' ''1'' ''Banana'' ''rusty''"
       and bu = 1 and btbl = "[]" and msg = "''e''"]
  by (simp add: sample_bogie_fits fits_samples)
     (simp add: sample_bogie_def get_1 bogie_frame_condition_choices_def bolster_choices_def
      bolster_suspension_bracket_choices_def lower_spring_seat_choices_def
      axle_guide_choices_def bmbc_choices_def)

text \<open>
  The claim as stated fails. The inspector resolves and the form number is fresh, but
  the five bogie conditions are a string of 51 characters, one more than their columns
  take: the insert is refused, the answer is 400 with the general error, and nothing is
  stored.
\<close>

theorem condition_vocabulary_counterexample:
  "User_objects_get {1}
     (inspection_by (sample_bogie ''BOGIE-1'' ''1'' (replicate 51 CHR ''x'') ''GOOD'')) = Inr 1 \<and>
   \<not> bogie_form_number_exists []
       (bc_in_form_number (sample_bogie ''BOGIE-1'' ''1'' (replicate 51 CHR ''x'') ''GOOD'')) \<and>
   length (bolster (bogie_checksheet
       (sample_bogie ''BOGIE-1'' ''1'' (replicate 51 CHR ''x'') ''GOOD''))) = 51 \<and>
   create_bogie_checksheet ''value too long'' {1} []
       (sample_bogie ''BOGIE-1'' ''1'' (replicate 51 CHR ''x'') ''GOOD'') =
     ((400, \<lparr>success = False,
             message = ''Error creating bogie checksheet: value too long'',
             data = None, errors = Some [(''general'', [''value too long''])]\<rparr>), [])"
proof -
  let ?p = "sample_bogie ''BOGIE-1'' ''1'' (replicate 51 CHR ''x'') ''GOOD''"
  have u: "User_objects_get {1} (inspection_by ?p) = Inr 1"
    by (simp add: sample_bogie_def get_1)
  have seen: "\<not> bogie_form_number_exists [] (bc_in_form_number ?p)"
    by (simp add: bogie_form_number_exists_def)
  have len: "length (bolster (bogie_checksheet ?p)) = 51"
    by (simp add: sample_bogie_def)
  have ins: "BogieChecksheet_objects_create ''value too long'' [] (bogie_row ?p 1) =
      Inl (DataError ''value too long'')"
    by (simp add: BogieChecksheet_objects_create_def bogie_varchars_def bogie_row_def
        sample_bogie_def has_nul_def too_long_def blank_def)
  from u seen len bogie_create_refused [OF u seen ins] show ?thesis
    by (simp add: create_bogie_checksheet_def general_error_def)
qed

section \<open>Listing records\<close>

lemma take_is_prefix: "take (length needle) hay = needle \<longleftrightarrow> (\<exists>post. hay = needle @ post)"
proof
  assume "take (length needle) hay = needle"
  then have "hay = needle @ drop (length needle) hay"
    by (metis append_take_drop_id)
  then show "\<exists>post. hay = needle @ post" ..
next
  assume "\<exists>post. hay = needle @ post"
  then show "take (length needle) hay = needle" by auto
qed

lemma contains_iff: "contains hay needle \<longleftrightarrow> (\<exists>pre post. hay = pre @ needle @ post)"
proof (induction hay)
  case Nil
  show ?case by simp
next
  case (Cons c cs)
  have "(\<exists>pre post. c # cs = pre @ needle @ post) \<longleftrightarrow>
        (\<exists>post. c # cs = needle @ post) \<or> (\<exists>pre post. cs = pre @ needle @ post)"
    by (auto simp: Cons_eq_append_conv)
  with Cons show ?case
    by (simp only: contains.simps take_is_prefix)
qed

lemma icontains_iff: "icontains up hay needle \<longleftrightarrow> case_insensitive_substring up needle hay"
  by (simp add: icontains_def case_insensitive_substring_def contains_iff)

lemma resolved_is_truthy: "User_objects_get users ref = Inr u \<Longrightarrow> truthy (Some ref)"
  by (cases ref) (simp_all add: truthy_def get_empty)

lemma text_step:
  "(if truthy q then (filter (\<lambda>r. icontains up (f r) (the q)) xs, True) else (xs, b)) =
   (filter (\<lambda>r. if truthy q then case_insensitive_substring up (the q) (f r) else True) xs,
    truthy q \<or> b)"
  by (simp add: icontains_iff)

lemma date_step:
  "(case dq of Some d \<Rightarrow> (filter (\<lambda>r. g r = d) xs, True) | None \<Rightarrow> (xs, b)) =
   (filter (\<lambda>r. case dq of None \<Rightarrow> True | Some d \<Rightarrow> g r = d) xs, dq \<noteq> None \<or> b)"
  by (cases dq) auto

lemma wheel_list_filters:
  assumes "truthy uq \<Longrightarrow> \<exists>u. User_objects_get users (the uq) = Inr u"
    and "\<not> (truthy fq \<and> has_nul (the fq))"
  shows "get_wheel_specifications msg up users tbl fq uq dq =
     (200, \<lparr>success = True,
            message = (if truthy fq \<or> truthy uq \<or> dq \<noteq> None
                       then ''Filtered wheel specification forms fetched successfully.''
                       else ''All wheel specification forms fetched successfully.''),
            data = Some (map wheel_response_data
                           (filter (wheel_filter_spec up users fq uq dq) tbl)),
            errors = None\<rparr>)"
proof (cases "truthy uq")
  case False
  from assms(2) have n: "(truthy fq \<and> has_nul (the fq)) = False" by simp
  from False show ?thesis
    by (simp add: get_wheel_specifications_def text_step date_step n
          wheel_filter_spec_def [abs_def] conj_commute conj_left_commute)
next
  case True
  with assms(1) obtain u where u: "User_objects_get users (the uq) = Inr u" by blast
  have eq: "\<And>r. (u = ws_submitted_by r) = (ws_submitted_by r = u)"
    by auto
  from assms(2) have n: "(truthy fq \<and> has_nul (the fq)) = False" by simp
  from True u show ?thesis
    by (simp add: get_wheel_specifications_def text_step date_step n
          wheel_filter_spec_def [abs_def] eq conj_commute conj_left_commute)
qed

lemma bogie_list_filters:
  assumes "truthy uq \<Longrightarrow> \<exists>u. User_objects_get users (the uq) = Inr u"
    and "\<not> (truthy fq \<and> has_nul (the fq))" and "\<not> (truthy bq \<and> has_nul (the bq))"
  shows "get_bogie_checksheets msg up users tbl fq uq dq bq =
     (200, \<lparr>success = True,
            message = (if truthy fq \<or> truthy uq \<or> dq \<noteq> None \<or> truthy bq
                       then ''Filtered bogie checksheet forms fetched successfully.''
                       else ''All bogie checksheet forms fetched successfully.''),
            data = Some (map bogie_response_data
                           (filter (bogie_filter_spec up users fq uq dq bq) tbl)),
            errors = None\<rparr>)"
proof (cases "truthy uq")
  case False
  from assms(2,3) have n: "(truthy fq \<and> has_nul (the fq)) = False"
    "(truthy bq \<and> has_nul (the bq)) = False" by simp_all
  from False show ?thesis
    by (simp add: get_bogie_checksheets_def text_step date_step n
          bogie_filter_spec_def [abs_def] conj_commute conj_left_commute)
next
  case True
  with assms(1) obtain u where u: "User_objects_get users (the uq) = Inr u" by blast
  have eq: "\<And>r. (u = bc_inspection_by r) = (bc_inspection_by r = u)"
    by auto
  from assms(2,3) have n: "(truthy fq \<and> has_nul (the fq)) = False"
    "(truthy bq \<and> has_nul (the bq)) = False" by simp_all
  from True u show ?thesis
    by (simp add: get_bogie_checksheets_def text_step date_step n
          bogie_filter_spec_def [abs_def] eq conj_commute conj_left_commute)
qed

lemma wheel_list_unresolved:
  "truthy uq \<Longrightarrow> User_objects_get users (the uq) = Inl e \<Longrightarrow>
   get_wheel_specifications msg up users tbl fq uq dq = invalid_user ''submitted_by''"
  by (simp add: get_wheel_specifications_def Let_def split: prod.splits)

lemma bogie_list_unresolved:
  "truthy uq \<Longrightarrow> User_objects_get users (the uq) = Inl e \<Longrightarrow>
   get_bogie_checksheets msg up users tbl fq uq dq bq = invalid_user ''inspection_by''"
  by (simp add: get_bogie_checksheets_def Let_def split: prod.splits)

lemma wheel_list_nul:
  assumes "truthy uq \<Longrightarrow> \<exists>u. User_objects_get users (the uq) = Inr u"
    and "truthy fq" and "has_nul (the fq)"
  shows "get_wheel_specifications msg up users tbl fq uq dq =
     general_error ''Error retrieving wheel specifications: '' (NulCharacterError msg)"
proof (cases "truthy uq")
  case False
  with assms(2,3) show ?thesis
    by (simp add: get_wheel_specifications_def Let_def split: prod.splits option.splits)
next
  case True
  with assms(1) obtain u where "User_objects_get users (the uq) = Inr u" by blast
  with True assms(2,3) show ?thesis
    by (simp add: get_wheel_specifications_def Let_def split: prod.splits option.splits)
qed

lemma bogie_list_nul:
  assumes "truthy uq \<Longrightarrow> \<exists>u. User_objects_get users (the uq) = Inr u"
    and "(truthy fq \<and> has_nul (the fq)) \<or> (truthy bq \<and> has_nul (the bq))"
  shows "get_bogie_checksheets msg up users tbl fq uq dq bq =
     general_error ''Error retrieving bogie checksheets: '' (NulCharacterError msg)"
proof (cases "truthy uq")
  case False
  with assms(2) show ?thesis
    by (auto simp: get_bogie_checksheets_def Let_def split: prod.splits option.splits)
next
  case True
  with assms(1) obtain u where "User_objects_get users (the uq) = Inr u" by blast
  with True assms(2) show ?thesis
    by (auto simp: get_bogie_checksheets_def Let_def split: prod.splits option.splits)
qed

text \<open>
  Claim C4, as amended. A text parameter or user reference counts as supplied when it is
  present and not empty. For every table and every combination of list parameters in
  which the supplied user reference resolves and no supplied text parameter holds the
  NUL character, the list handler answers 200 with exactly the records that satisfy the
  conjunction of the supplied predicates, in table order: substring match on the form
  number (and on the bogie number for bogie checksheets) with letter case ignored as
  the database upper-cases text, equality on the date, equality of the record's user
  with the resolved user. Without parameters every record of the table is returned. A
  supplied reference that does not resolve is answered 400 with the invalid-user error;
  otherwise a supplied text parameter holding NUL is answered 400 with the general
  error.
\<close>

theorem list_returns_conjunction_of_filters:
  "((truthy wuq \<longrightarrow> (\<exists>u. User_objects_get users (the wuq) = Inr u)) \<and>
    \<not> (truthy wfq \<and> has_nul (the wfq)) \<longrightarrow>
      fst (get_wheel_specifications msg up users wtbl wfq wuq wdq) = 200 \<and>
      success (snd (get_wheel_specifications msg up users wtbl wfq wuq wdq)) \<and>
      data (snd (get_wheel_specifications msg up users wtbl wfq wuq wdq)) =
        Some (map wheel_response_data
                (filter (wheel_filter_spec up users wfq wuq wdq) wtbl))) \<and>
   (truthy wuq \<and> User_objects_get users (the wuq) = Inl we \<longrightarrow>
      get_wheel_specifications msg up users wtbl wfq wuq wdq =
        (400, \<lparr>success = False, message = ''Invalid user ID provided'', data = None,
               errors = Some [(''submitted_by'', [''User not found''])]\<rparr>)) \<and>
   ((truthy wuq \<longrightarrow> (\<exists>u. User_objects_get users (the wuq) = Inr u)) \<and>
    truthy wfq \<and> has_nul (the wfq) \<longrightarrow>
      get_wheel_specifications msg up users wtbl wfq wuq wdq =
        (400, \<lparr>success = False, message = ''Error retrieving wheel specifications: '' @ msg,
               data = None, errors = Some [(''general'', [msg])]\<rparr>)) \<and>
   ((truthy buq \<longrightarrow> (\<exists>u. User_objects_get users (the buq) = Inr u)) \<and>
    \<not> (truthy bfq \<and> has_nul (the bfq)) \<and> \<not> (truthy bbq \<and> has_nul (the bbq)) \<longrightarrow>
      fst (get_bogie_checksheets msg up users btbl bfq buq bdq bbq) = 200 \<and>
      success (snd (get_bogie_checksheets msg up users btbl bfq buq bdq bbq)) \<and>
      data (snd (get_bogie_checksheets msg up users btbl bfq buq bdq bbq)) =
        Some (map bogie_response_data
                (filter (bogie_filter_spec up users bfq buq bdq bbq) btbl))) \<and>
   (truthy buq \<and> User_objects_get users (the buq) = Inl be \<longrightarrow>
      get_bogie_checksheets msg up users btbl bfq buq bdq bbq =
        (400, \<lparr>success = False, message = ''Invalid user ID provided'', data = None,
               errors = Some [(''inspection_by'', [''User not found''])]\<rparr>)) \<and>
   ((truthy buq \<longrightarrow> (\<exists>u. User_objects_get users (the buq) = Inr u)) \<and>
    ((truthy bfq \<and> has_nul (the bfq)) \<or> (truthy bbq \<and> has_nul (the bbq))) \<longrightarrow>
      get_bogie_checksheets msg up users btbl bfq buq bdq bbq =
        (400, \<lparr>success = False, message = ''Error retrieving bogie checksheets: '' @ msg,
               data = None, errors = Some [(''general'', [msg])]\<rparr>)) \<and>
   data (snd (get_wheel_specifications msg up users wtbl None None None)) =
     Some (map wheel_response_data wtbl) \<and>
   data (snd (get_bogie_checksheets msg up users btbl None None None None)) =
     Some (map bogie_response_data btbl)"
proof (intro conjI impI)
  assume h: "(truthy wuq \<longrightarrow> (\<exists>u. User_objects_get users (the wuq) = Inr u)) \<and>
    \<not> (truthy wfq \<and> has_nul (the wfq))"
  then have w: "truthy wuq \<Longrightarrow> \<exists>u. User_objects_get users (the wuq) = Inr u"
    and n: "\<not> (truthy wfq \<and> has_nul (the wfq))" by blast+
  note r = wheel_list_filters [where uq = wuq and users = users and fq = wfq, OF w n]
  show "fst (get_wheel_specifications msg up users wtbl wfq wuq wdq) = 200"
    by (simp add: r)
  show "success (snd (get_wheel_specifications msg up users wtbl wfq wuq wdq))"
    by (simp add: r)
  show "data (snd (get_wheel_specifications msg up users wtbl wfq wuq wdq)) =
        Some (map wheel_response_data
                (filter (wheel_filter_spec up users wfq wuq wdq) wtbl))"
    by (simp add: r)
next
  assume "truthy wuq \<and> User_objects_get users (the wuq) = Inl we"
  then show "get_wheel_specifications msg up users wtbl wfq wuq wdq =
        (400, \<lparr>success = False, message = ''Invalid user ID provided'', data = None,
               errors = Some [(''submitted_by'', [''User not found''])]\<rparr>)"
    by (simp add: wheel_list_unresolved invalid_user_def)
next
  assume h: "(truthy wuq \<longrightarrow> (\<exists>u. User_objects_get users (the wuq) = Inr u)) \<and>
    truthy wfq \<and> has_nul (the wfq)"
  then have w: "truthy wuq \<Longrightarrow> \<exists>u. User_objects_get users (the wuq) = Inr u"
    and t: "truthy wfq" and n: "has_nul (the wfq)" by blast+
  show "get_wheel_specifications msg up users wtbl wfq wuq wdq =
        (400, \<lparr>success = False, message = ''Error retrieving wheel specifications: '' @ msg,
               data = None, errors = Some [(''general'', [msg])]\<rparr>)"
    by (simp add: wheel_list_nul [where uq = wuq and users = users and fq = wfq, OF w t n]
        general_error_def)
next
  assume h: "(truthy buq \<longrightarrow> (\<exists>u. User_objects_get users (the buq) = Inr u)) \<and>
    \<not> (truthy bfq \<and> has_nul (the bfq)) \<and> \<not> (truthy bbq \<and> has_nul (the bbq))"
  then have b: "truthy buq \<Longrightarrow> \<exists>u. User_objects_get users (the buq) = Inr u"
    and n: "\<not> (truthy bfq \<and> has_nul (the bfq))" "\<not> (truthy bbq \<and> has_nul (the bbq))"
    by blast+
  note r = bogie_list_filters [where uq = buq and users = users and fq = bfq and bq = bbq,
      OF b n]
  show "fst (get_bogie_checksheets msg up users btbl bfq buq bdq bbq) = 200"
    by (simp add: r)
  show "success (snd (get_bogie_checksheets msg up users btbl bfq buq bdq bbq))"
    by (simp add: r)
  show "data (snd (get_bogie_checksheets msg up users btbl bfq buq bdq bbq)) =
        Some (map bogie_response_data
                (filter (bogie_filter_spec up users bfq buq bdq bbq) btbl))"
    by (simp add: r)
next
  assume "truthy buq \<and> User_objects_get users (the buq) = Inl be"
  then show "get_bogie_checksheets msg up users btbl bfq buq bdq bbq =
        (400, \<lparr>success = False, message = ''Invalid user ID provided'', data = None,
               errors = Some [(''inspection_by'', [''User not found''])]\<rparr>)"
    by (simp add: bogie_list_unresolved invalid_user_def)
next
  assume h: "(truthy buq \<longrightarrow> (\<exists>u. User_objects_get users (the buq) = Inr u)) \<and>
    ((truthy bfq \<and> has_nul (the bfq)) \<or> (truthy bbq \<and> has_nul (the bbq)))"
  then have b: "truthy buq \<Longrightarrow> \<exists>u. User_objects_get users (the buq) = Inr u"
    and n: "(truthy bfq \<and> has_nul (the bfq)) \<or> (truthy bbq \<and> has_nul (the bbq))"
    by blast+
  show "get_bogie_checksheets msg up users btbl bfq buq bdq bbq =
        (400, \<lparr>success = False, message = ''Error retrieving bogie checksheets: '' @ msg,
               data = None, errors = Some [(''general'', [msg])]\<rparr>)"
    by (simp add: bogie_list_nul [where uq = buq and users = users and fq = bfq and bq = bbq,
          OF b n] general_error_def)
next
  show "data (snd (get_wheel_specifications msg up users wtbl None None None)) =
     Some (map wheel_response_data wtbl)"
    by (simp add: get_wheel_specifications_def truthy_def)
  show "data (snd (get_bogie_checksheets msg up users btbl None None None None)) =
     Some (map bogie_response_data btbl)"
    by (simp add: get_bogie_checksheets_def truthy_def)
qed

lemma icontains_samples:
  "icontains ascii_upper ''WHEEL-2'' ''wheel''" "\<not> icontains ascii_upper ''AXLE-1'' ''wheel''"
  "icontains ascii_upper ''BG1234'' ''bg12''" "icontains ascii_upper ''BOGIE-1'' ''ie''"
  "icontains ascii_upper ''BOGIE-2'' ''ie''"
  by code_simp+

lemma no_nul_samples:
  "\<not> has_nul ''wheel''" "\<not> has_nul ''ie''" "\<not> has_nul ''bg12''" "has_nul [CHR 0x00]"
  by (simp_all add: has_nul_def)

theorem list_returns_conjunction_of_filters_witness:
  "map formNumber (the (data (snd (get_wheel_specifications ''e'' ascii_upper {1}
      [wheel_row (sample_wheel ''WHEEL-2'' ''1'') 1, wheel_row (sample_wheel ''AXLE-1'' ''1'') 1]
      (Some ''wheel'') (Some ''1'') (Some (Date 2025 1 1)))))) = [''WHEEL-2''] \<and>
   map bc_formNumber (the (data (snd (get_bogie_checksheets ''e'' ascii_upper {1}
      [bogie_row (sample_bogie ''BOGIE-2'' ''1'' ''Good'' ''GOOD'') 1,
       bogie_row (sample_bogie ''BOGIE-1'' ''1'' ''Good'' ''GOOD'') 1]
      (Some ''ie'') (Some ''01'') None (Some ''bg12''))))) = [''BOGIE-2'', ''BOGIE-1'']"
  using list_returns_conjunction_of_filters
    [where users = "{1}" and wfq = "Some ''wheel''" and wuq = "Some ''1''"
       and wdq = "Some (Date 2025 1 1)" and up = ascii_upper and msg = "''e''"
       and wtbl = "[wheel_row (sample_wheel ''WHEEL-2'' ''1'') 1,
                    wheel_row (sample_wheel ''AXLE-1'' ''1'') 1]"
       and bfq = "Some ''ie''" and buq = "Some ''01''" and bdq = None and bbq = "Some ''bg12''"
       and btbl = "[bogie_row (sample_bogie ''BOGIE-2'' ''1'' ''Good'' ''GOOD'') 1,
                    bogie_row (sample_bogie ''BOGIE-1'' ''1'' ''Good'' ''GOOD'') 1]"]
  by (simp add: get_1 get_01 truthy_def no_nul_samples wheel_filter_spec_def
      bogie_filter_spec_def icontains_iff [symmetric] icontains_samples wheel_row_def
      bogie_row_def sample_wheel_def sample_bogie_def wheel_response_data_def
      bogie_response_data_def)

text \<open>
  The claim as stated fails. No stored form number contains the NUL character, so the
  records that match a form-number filter made of NUL are none; the handler does not
  answer 200 with an empty list but 400 with the general error. And a request whose user
  reference does not resolve is answered 400 without any data.
\<close>

theorem list_returns_conjunction_of_filters_counterexample:
  "filter (wheel_filter_spec ascii_upper {1} (Some [CHR 0x00]) None None)
     [wheel_row (sample_wheel ''WHEEL-1'' ''1'') 1] = [] \<and>
   get_wheel_specifications ''nul'' ascii_upper {1} [wheel_row (sample_wheel ''WHEEL-1'' ''1'') 1]
     (Some [CHR 0x00]) None None =
     (400, \<lparr>success = False, message = ''Error retrieving wheel specifications: nul'',
            data = None, errors = Some [(''general'', [''nul''])]\<rparr>) \<and>
   get_wheel_specifications ''nul'' ascii_upper {1} [wheel_row (sample_wheel ''WHEEL-1'' ''1'') 1]
     None (Some ''7'') None =
     (400, \<lparr>success = False, message = ''Invalid user ID provided'', data = None,
            errors = Some [(''submitted_by'', [''User not found''])]\<rparr>)"
proof (intro conjI)
  have "\<not> icontains ascii_upper ''WHEEL-1'' [CHR 0x00]"
    by code_simp
  then show "filter (wheel_filter_spec ascii_upper {1} (Some [CHR 0x00]) None None)
     [wheel_row (sample_wheel ''WHEEL-1'' ''1'') 1] = []"
    by (simp add: wheel_filter_spec_def truthy_def icontains_iff wheel_row_form_number)
       (simp add: sample_wheel_def)
  show "get_wheel_specifications ''nul'' ascii_upper {1}
     [wheel_row (sample_wheel ''WHEEL-1'' ''1'') 1] (Some [CHR 0x00]) None None =
     (400, \<lparr>success = False, message = ''Error retrieving wheel specifications: nul'',
            data = None, errors = Some [(''general'', [''nul''])]\<rparr>)"
    by (subst wheel_list_nul) (simp_all add: truthy_def no_nul_samples general_error_def)
  show "get_wheel_specifications ''nul'' ascii_upper {1}
     [wheel_row (sample_wheel ''WHEEL-1'' ''1'') 1] None (Some ''7'') None =
     (400, \<lparr>success = False, message = ''Invalid user ID provided'', data = None,
            errors = Some [(''submitted_by'', [''User not found''])]\<rparr>)"
    by (subst wheel_list_unresolved [where e = DoesNotExist])
       (simp_all add: truthy_def get_7 invalid_user_def)
qed

text \<open>
  Claim C10. A text parameter given as the empty string has the effect of a parameter
  left out: the answer is the same, no restriction is applied for it, the message is the
  one for an unfiltered list when nothing else is supplied, and an empty user reference
  does not produce the invalid-user error although it resolves to no user.
\<close>

theorem empty_filter_is_no_filter:
  "get_wheel_specifications msg up users wtbl (Some []) wuq wdq =
     get_wheel_specifications msg up users wtbl None wuq wdq \<and>
   get_wheel_specifications msg up users wtbl wfq (Some []) wdq =
     get_wheel_specifications msg up users wtbl wfq None wdq \<and>
   get_wheel_specifications msg up users wtbl (Some []) (Some []) None =
     (200, \<lparr>success = True,
            message = ''All wheel specification forms fetched successfully.'',
            data = Some (map wheel_response_data wtbl), errors = None\<rparr>) \<and>
   get_bogie_checksheets msg up users btbl (Some []) buq bdq bbq =
     get_bogie_checksheets msg up users btbl None buq bdq bbq \<and>
   get_bogie_checksheets msg up users btbl bfq (Some []) bdq bbq =
     get_bogie_checksheets msg up users btbl bfq None bdq bbq \<and>
   get_bogie_checksheets msg up users btbl bfq buq bdq (Some []) =
     get_bogie_checksheets msg up users btbl bfq buq bdq None \<and>
   get_bogie_checksheets msg up users btbl (Some []) (Some []) None (Some []) =
     (200, \<lparr>success = True,
            message = ''All bogie checksheet forms fetched successfully.'',
            data = Some (map bogie_response_data btbl), errors = None\<rparr>) \<and>
   User_objects_get users [] = Inl ValueError"
  by (simp add: get_wheel_specifications_def get_bogie_checksheets_def truthy_def get_empty
      Let_def cong: sum.case_cong)

theorem empty_filter_is_no_filter_witness:
  "get_wheel_specifications ''e'' ascii_upper {1} [wheel_row (sample_wheel ''WHEEL-1'' ''1'') 1]
     (Some []) (Some []) None =
     (200, \<lparr>success = True,
            message = ''All wheel specification forms fetched successfully.'',
            data = Some [wheel_response_data (wheel_row (sample_wheel ''WHEEL-1'' ''1'') 1)],
            errors = None\<rparr>) \<and>
   User_objects_get {1} [] = Inl ValueError"
  using empty_filter_is_no_filter
    [where users = "{1}" and wtbl = "[wheel_row (sample_wheel ''WHEEL-1'' ''1'') 1]"
       and wuq = None and wdq = None and wfq = None and btbl = "[]" and bfq = None
       and buq = None and bdq = None and bbq = None and msg = "''e''" and up = ascii_upper]
  by (simp add: get_wheel_specifications_def truthy_def)

section \<open>The life of a record\<close>

lemma wheel_stored_status: "ws_status (wheel_stored (wheel_row p u)) = ''submitted''"
  by (simp add: wheel_stored_def wheel_row_def)

lemma bogie_stored_status: "bc_status (bogie_stored (bogie_row p u)) = ''submitted''"
  by (simp add: bogie_stored_def bogie_row_def)

lemma wheel_create_effect:
  "snd (create_wheel_specification msg users tbl p) = tbl \<or>
   (\<exists>u. snd (create_wheel_specification msg users tbl p) = wheel_stored (wheel_row p u) # tbl)"
  by (auto simp: create_wheel_specification_def create_wheel_specification_at_def
      WheelSpecification_objects_create_def Let_def split: sum.splits if_splits)

lemma bogie_create_effect:
  "snd (create_bogie_checksheet msg users tbl p) = tbl \<or>
   (\<exists>u. snd (create_bogie_checksheet msg users tbl p) = bogie_stored (bogie_row p u) # tbl)"
  by (auto simp: create_bogie_checksheet_def create_bogie_checksheet_at_def
      BogieChecksheet_objects_create_def Let_def split: sum.splits if_splits)

lemma serve_extends:
  "\<exists>wnew bnew.
     wheel_specifications (serve msg users db req) = wnew @ wheel_specifications db \<and>
     bogie_checksheets (serve msg users db req) = bnew @ bogie_checksheets db \<and>
     (\<forall>r \<in> set wnew. ws_status r = ''submitted'') \<and>
     (\<forall>r \<in> set bnew. bc_status r = ''submitted'')"
proof (cases req)
  case (PostWheelSpecification p)
  from wheel_create_effect [of msg users "wheel_specifications db" p]
  show ?thesis
  proof
    assume "snd (create_wheel_specification msg users (wheel_specifications db) p) =
            wheel_specifications db"
    with PostWheelSpecification show ?thesis by simp
  next
    assume "\<exists>u. snd (create_wheel_specification msg users (wheel_specifications db) p) =
            wheel_stored (wheel_row p u) # wheel_specifications db"
    then obtain u where
      "snd (create_wheel_specification msg users (wheel_specifications db) p) =
       wheel_stored (wheel_row p u) # wheel_specifications db" ..
    with PostWheelSpecification
    have "wheel_specifications (serve msg users db req) =
        [wheel_stored (wheel_row p u)] @ wheel_specifications db"
      and "bogie_checksheets (serve msg users db req) = [] @ bogie_checksheets db"
      by simp_all
    moreover have "\<forall>r \<in> set [wheel_stored (wheel_row p u)]. ws_status r = ''submitted''"
      by (simp add: wheel_stored_status)
    ultimately show ?thesis by fastforce
  qed
next
  case (GetWheelSpecifications f u d)
  then show ?thesis by simp
next
  case (PostBogieChecksheet p)
  from bogie_create_effect [of msg users "bogie_checksheets db" p]
  show ?thesis
  proof
    assume "snd (create_bogie_checksheet msg users (bogie_checksheets db) p) =
            bogie_checksheets db"
    with PostBogieChecksheet show ?thesis by simp
  next
    assume "\<exists>u. snd (create_bogie_checksheet msg users (bogie_checksheets db) p) =
            bogie_stored (bogie_row p u) # bogie_checksheets db"
    then obtain u where
      "snd (create_bogie_checksheet msg users (bogie_checksheets db) p) =
       bogie_stored (bogie_row p u) # bogie_checksheets db" ..
    with PostBogieChecksheet
    have "wheel_specifications (serve msg users db req) = [] @ wheel_specifications db"
      and "bogie_checksheets (serve msg users db req) =
        [bogie_stored (bogie_row p u)] @ bogie_checksheets db"
      by simp_all
    moreover have "\<forall>r \<in> set [bogie_stored (bogie_row p u)]. bc_status r = ''submitted''"
      by (simp add: bogie_stored_status)
    ultimately show ?thesis by fastforce
  qed
next
  case (GetBogieChecksheets f u d b)
  then show ?thesis by simp
qed

lemma reachable_submitted:
  "reachable db \<Longrightarrow>
   (\<forall>r \<in> set (wheel_specifications db). ws_status r = ''submitted'') \<and>
   (\<forall>r \<in> set (bogie_checksheets db). bc_status r = ''submitted'')"
proof (induction rule: reachable.induct)
  case empty
  show ?case by simp
next
  case (request db msg users req)
  from serve_extends [of msg users db req] obtain wnew bnew where
    "wheel_specifications (serve msg users db req) = wnew @ wheel_specifications db"
    "bogie_checksheets (serve msg users db req) = bnew @ bogie_checksheets db"
    "\<forall>r \<in> set wnew. ws_status r = ''submitted''"
    "\<forall>r \<in> set bnew. bc_status r = ''submitted''"
    by blast
  with request.IH show ?case by auto
qed

text \<open>
  Claim C9. In every store that the four operations can build from empty tables, each
  wheel specification and each bogie checksheet has the status \<open>submitted\<close> it was
  created with, so none is \<open>reviewed\<close>, \<open>approved\<close> or \<open>rejected\<close>; and
  serving one more request keeps every stored record in place and unchanged: the tables
  afterwards are the old tables with at most new records in front.
\<close>

theorem status_never_transitions:
  "reachable db \<Longrightarrow>
   (\<forall>r \<in> set (wheel_specifications db).
      ws_status r = ''submitted'' \<and> ws_status r \<notin> {''reviewed'', ''approved'', ''rejected''}) \<and>
   (\<forall>r \<in> set (bogie_checksheets db).
      bc_status r = ''submitted'' \<and> bc_status r \<notin> {''reviewed'', ''approved'', ''rejected''}) \<and>
   (\<exists>wnew bnew.
      wheel_specifications (serve msg users db req) = wnew @ wheel_specifications db \<and>
      bogie_checksheets (serve msg users db req) = bnew @ bogie_checksheets db)"
proof (intro conjI)
  assume r: "reachable db"
  from reachable_submitted [OF r]
  show "\<forall>r \<in> set (wheel_specifications db).
      ws_status r = ''submitted'' \<and> ws_status r \<notin> {''reviewed'', ''approved'', ''rejected''}"
    by simp
  from reachable_submitted [OF r]
  show "\<forall>r \<in> set (bogie_checksheets db).
      bc_status r = ''submitted'' \<and> bc_status r \<notin> {''reviewed'', ''approved'', ''rejected''}"
    by simp
  from serve_extends [of msg users db req]
  show "\<exists>wnew bnew.
      wheel_specifications (serve msg users db req) = wnew @ wheel_specifications db \<and>
      bogie_checksheets (serve msg users db req) = bnew @ bogie_checksheets db"
    by blast
qed

theorem status_never_transitions_witness:
  "reachable (serve ''e'' {1}
      (serve ''e'' {1} \<lparr>wheel_specifications = [], bogie_checksheets = []\<rparr>
         (PostWheelSpecification (sample_wheel ''WHEEL-1'' ''1'')))
      (PostBogieChecksheet (sample_bogie ''BOGIE-1'' ''1'' ''Good'' ''GOOD''))) \<and>
   map ws_status (wheel_specifications (serve ''e'' {1}
      (serve ''e'' {1} \<lparr>wheel_specifications = [], bogie_checksheets = []\<rparr>
         (PostWheelSpecification (sample_wheel ''WHEEL-1'' ''1'')))
      (PostBogieChecksheet (sample_bogie ''BOGIE-1'' ''1'' ''Good'' ''GOOD'')))) = [''submitted''] \<and>
   map bc_status (bogie_checksheets (serve ''e'' {1}
      (serve ''e'' {1} \<lparr>wheel_specifications = [], bogie_checksheets = []\<rparr>
         (PostWheelSpecification (sample_wheel ''WHEEL-1'' ''1'')))
      (PostBogieChecksheet (sample_bogie ''BOGIE-1'' ''1'' ''Good'' ''GOOD'')))) = [''submitted'']"
proof -
  let ?db = "serve ''e'' {1}
      (serve ''e'' {1} \<lparr>wheel_specifications = [], bogie_checksheets = []\<rparr>
         (PostWheelSpecification (sample_wheel ''WHEEL-1'' ''1'')))
      (PostBogieChecksheet (sample_bogie ''BOGIE-1'' ''1'' ''Good'' ''GOOD''))"
  have r: "reachable ?db"
    by (intro reachable.request reachable.empty)
  have w: "User_objects_get {1} (submitted_by (sample_wheel ''WHEEL-1'' ''1'')) = Inr 1"
    by (simp add: sample_wheel_def get_1)
  have b: "User_objects_get {1} (inspection_by (sample_bogie ''BOGIE-1'' ''1'' ''Good'' ''GOOD'')) = Inr 1"
    by (simp add: sample_bogie_def get_1)
  have tables: "length (wheel_specifications ?db) = 1" "length (bogie_checksheets ?db) = 1"
    by (simp_all add: create_wheel_specification_def create_bogie_checksheet_def
        wheel_create_fresh [OF w] bogie_create_fresh [OF b] wheel_form_number_exists_def
        bogie_form_number_exists_def sample_wheel_fits sample_bogie_fits fits_samples)
  from status_never_transitions [OF r] tables r show ?thesis
    by (auto simp: length_Suc_conv)
qed

section \<open>Create, then list\<close>

lemma wheel_response_of_row: "wheel_response_data (wheel_row p u) = wheel_echo p (py_str u)"
  by (simp add: wheel_response_data_def wheel_row_def wheel_echo_def wheel_fields_renamed_def
      title_submitted)

lemma bogie_response_of_row: "bogie_response_data (bogie_row p u) = bogie_echo p (py_str u)"
  by (simp add: bogie_response_data_def bogie_row_def bogie_echo_def bogie_details_renamed_def
      bogie_checksheet_renamed_def bmbc_checksheet_renamed_def title_submitted)

lemma icontains_refl: "icontains up s s"
  unfolding icontains_def contains_iff
  by (rule exI [of _ "[]"], rule exI [of _ "[]"]) simp

lemma wheel_fits_form_number: "wheel_fits (wheel_row p u) \<Longrightarrow> \<not> has_nul (form_number p)"
  by (simp add: wheel_fits_def wheel_varchars_def wheel_row_def fits_def)

lemma bogie_fits_form_number: "bogie_fits (bogie_row p u) \<Longrightarrow> \<not> has_nul (bc_in_form_number p)"
  by (simp add: bogie_fits_def bogie_varchars_def bogie_row_def fits_def)

lemma wheel_list_by_form_number:
  "\<not> has_nul f \<Longrightarrow>
   get_wheel_specifications msg up users tbl (Some f) None None =
     (200, \<lparr>success = True,
            message = (if f = [] then ''All wheel specification forms fetched successfully.''
                       else ''Filtered wheel specification forms fetched successfully.''),
            data = Some (map wheel_response_data
                           (if f = [] then tbl
                            else filter (\<lambda>r. icontains up (ws_form_number r) f) tbl)),
            errors = None\<rparr>)"
  by (cases "f = []") (simp_all add: get_wheel_specifications_def truthy_def)

lemma bogie_list_by_form_number:
  "\<not> has_nul f \<Longrightarrow>
   get_bogie_checksheets msg up users tbl (Some f) None None None =
     (200, \<lparr>success = True,
            message = (if f = [] then ''All bogie checksheet forms fetched successfully.''
                       else ''Filtered bogie checksheet forms fetched successfully.''),
            data = Some (map bogie_response_data
                           (if f = [] then tbl
                            else filter (\<lambda>r. icontains up (bc_form_number r) f) tbl)),
            errors = None\<rparr>)"
  by (cases "f = []") (simp_all add: get_bogie_checksheets_def truthy_def)

lemma wheel_response_form_number: "formNumber (wheel_response_data r) = ws_form_number r"
  by (simp add: wheel_response_data_def)

lemma bogie_response_form_number: "bc_formNumber (bogie_response_data r) = bc_form_number r"
  by (simp add: bogie_response_data_def)

text \<open>
  Claim C5, as amended. For a create request whose user reference resolves to user
  \<open>u\<close>, whose form number is fresh and whose text values each fit their column, the
  create followed by the list filtered by that form number answers 200 with a list whose
  first element is the record of the request: form number, date and every value of the
  nested groups unchanged under the renamed keys, the status word \<open>Submitted\<close>, and
  as user reference the decimal string of the id of \<open>u\<close>, which is the reference of
  the request whenever that is the decimal string of an integer. The other elements are
  the older records whose form number contains the form number of the request, letter
  case ignored as the database upper-cases text (all older records when the form number
  is empty); no older record has the form number of the request, and when no older form
  number contains it the list has exactly one element.
\<close>

theorem create_then_list_round_trip:
  "(User_objects_get users (submitted_by wp) = Inr wu \<and>
    \<not> (\<exists>r \<in> set wtbl. ws_form_number r = form_number wp) \<and>
    wheel_fits (wheel_row wp wu) \<longrightarrow>
      fst (get_wheel_specifications lmsg up users
             (snd (create_wheel_specification msg users wtbl wp))
             (Some (form_number wp)) None None) = 200 \<and>
      data (snd (get_wheel_specifications lmsg up users
                   (snd (create_wheel_specification msg users wtbl wp))
                   (Some (form_number wp)) None None)) =
        Some (wheel_echo wp (py_str wu) #
              map wheel_response_data
                (if form_number wp = [] then wtbl
                 else filter (\<lambda>r. icontains up (ws_form_number r) (form_number wp)) wtbl)) \<and>
      form_number wp \<notin> formNumber ` wheel_response_data ` set wtbl \<and>
      (form_number wp \<noteq> [] \<and>
       filter (\<lambda>r. icontains up (ws_form_number r) (form_number wp)) wtbl = [] \<longrightarrow>
         data (snd (get_wheel_specifications lmsg up users
                      (snd (create_wheel_specification msg users wtbl wp))
                      (Some (form_number wp)) None None)) =
           Some [wheel_echo wp (py_str wu)]) \<and>
      (\<forall>n. submitted_by wp = py_str n \<longrightarrow> py_str wu = submitted_by wp)) \<and>
   (User_objects_get users (inspection_by bp) = Inr bu \<and>
    \<not> (\<exists>r \<in> set btbl. bc_form_number r = bc_in_form_number bp) \<and>
    bogie_fits (bogie_row bp bu) \<longrightarrow>
      fst (get_bogie_checksheets lmsg up users
             (snd (create_bogie_checksheet msg users btbl bp))
             (Some (bc_in_form_number bp)) None None None) = 200 \<and>
      data (snd (get_bogie_checksheets lmsg up users
                   (snd (create_bogie_checksheet msg users btbl bp))
                   (Some (bc_in_form_number bp)) None None None)) =
        Some (bogie_echo bp (py_str bu) #
              map bogie_response_data
                (if bc_in_form_number bp = [] then btbl
                 else filter (\<lambda>r. icontains up (bc_form_number r) (bc_in_form_number bp))
                        btbl)) \<and>
      bc_in_form_number bp \<notin> bc_formNumber ` bogie_response_data ` set btbl \<and>
      (bc_in_form_number bp \<noteq> [] \<and>
       filter (\<lambda>r. icontains up (bc_form_number r) (bc_in_form_number bp)) btbl = [] \<longrightarrow>
         data (snd (get_bogie_checksheets lmsg up users
                      (snd (create_bogie_checksheet msg users btbl bp))
                      (Some (bc_in_form_number bp)) None None None)) =
           Some [bogie_echo bp (py_str bu)]) \<and>
      (\<forall>n. inspection_by bp = py_str n \<longrightarrow> py_str bu = inspection_by bp))"
proof (intro conjI impI allI)
  assume h: "User_objects_get users (submitted_by wp) = Inr wu \<and>
    \<not> (\<exists>r \<in> set wtbl. ws_form_number r = form_number wp) \<and>
    wheel_fits (wheel_row wp wu)"
  then have fresh: "\<not> wheel_form_number_exists wtbl (form_number wp)"
    by (simp add: wheel_exists_iff)
  from h have u: "User_objects_get users (submitted_by wp) = Inr wu"
    and f: "wheel_fits (wheel_row wp wu)" by simp_all
  note nn = wheel_fits_form_number [OF f]
  have tbl: "snd (create_wheel_specification msg users wtbl wp) = wheel_row wp wu # wtbl"
    by (simp add: create_wheel_specification_def wheel_create_fresh [OF u fresh fresh f])
  show "fst (get_wheel_specifications lmsg up users
               (snd (create_wheel_specification msg users wtbl wp))
               (Some (form_number wp)) None None) = 200"
    by (simp add: wheel_list_by_form_number [OF nn])
  show d: "data (snd (get_wheel_specifications lmsg up users
                   (snd (create_wheel_specification msg users wtbl wp))
                   (Some (form_number wp)) None None)) =
        Some (wheel_echo wp (py_str wu) #
              map wheel_response_data
                (if form_number wp = [] then wtbl
                 else filter (\<lambda>r. icontains up (ws_form_number r) (form_number wp)) wtbl))"
    by (simp add: wheel_list_by_form_number [OF nn] tbl wheel_row_form_number icontains_refl
        wheel_response_of_row)
  from h show "form_number wp \<notin> formNumber ` wheel_response_data ` set wtbl"
    by (auto simp: wheel_response_form_number)
  {
    assume "form_number wp \<noteq> [] \<and>
       filter (\<lambda>r. icontains up (ws_form_number r) (form_number wp)) wtbl = []"
    with d show "data (snd (get_wheel_specifications lmsg up users
                      (snd (create_wheel_specification msg users wtbl wp))
                      (Some (form_number wp)) None None)) =
           Some [wheel_echo wp (py_str wu)]"
      by simp
  }
  {
    fix n assume "submitted_by wp = py_str n"
    with u show "py_str wu = submitted_by wp"
      by (simp add: canonical_reference)
  }
next
  assume h: "User_objects_get users (inspection_by bp) = Inr bu \<and>
    \<not> (\<exists>r \<in> set btbl. bc_form_number r = bc_in_form_number bp) \<and>
    bogie_fits (bogie_row bp bu)"
  then have fresh: "\<not> bogie_form_number_exists btbl (bc_in_form_number bp)"
    by (simp add: bogie_exists_iff)
  from h have u: "User_objects_get users (inspection_by bp) = Inr bu"
    and f: "bogie_fits (bogie_row bp bu)" by simp_all
  note nn = bogie_fits_form_number [OF f]
  have tbl: "snd (create_bogie_checksheet msg users btbl bp) = bogie_row bp bu # btbl"
    by (simp add: create_bogie_checksheet_def bogie_create_fresh [OF u fresh fresh f])
  show "fst (get_bogie_checksheets lmsg up users
             (snd (create_bogie_checksheet msg users btbl bp))
             (Some (bc_in_form_number bp)) None None None) = 200"
    by (simp add: bogie_list_by_form_number [OF nn])
  show d: "data (snd (get_bogie_checksheets lmsg up users
                   (snd (create_bogie_checksheet msg users btbl bp))
                   (Some (bc_in_form_number bp)) None None None)) =
        Some (bogie_echo bp (py_str bu) #
              map bogie_response_data
                (if bc_in_form_number bp = [] then btbl
                 else filter (\<lambda>r. icontains up (bc_form_number r) (bc_in_form_number bp))
                        btbl))"
    by (simp add: bogie_list_by_form_number [OF nn] tbl bogie_row_form_number icontains_refl
        bogie_response_of_row)
  from h show "bc_in_form_number bp \<notin> bc_formNumber ` bogie_response_data ` set btbl"
    by (auto simp: bogie_response_form_number)
  {
    assume "bc_in_form_number bp \<noteq> [] \<and>
       filter (\<lambda>r. icontains up (bc_form_number r) (bc_in_form_number bp)) btbl = []"
    with d show "data (snd (get_bogie_checksheets lmsg up users
                      (snd (create_bogie_checksheet msg users btbl bp))
                      (Some (bc_in_form_number bp)) None None None)) =
           Some [bogie_echo bp (py_str bu)]"
      by simp
  }
  {
    fix n assume "inspection_by bp = py_str n"
    with u show "py_str bu = inspection_by bp"
      by (simp add: canonical_reference)
  }
qed

lemma icontains_round_trip_samples:
  "\<not> icontains ascii_upper ''AXLE-9'' ''WHEEL-1''"
  "\<not> icontains ascii_upper ''BOGIE-7'' ''BOGIE-1''"
  "icontains ascii_upper ''AB'' ''A''" "icontains ascii_upper ''A'' ''A''"
  by code_simp+

theorem create_then_list_round_trip_witness:
  "wheel_fits (wheel_row (sample_wheel ''WHEEL-1'' ''1'') 1) \<and>
   data (snd (get_wheel_specifications ''e'' ascii_upper {1}
      (snd (create_wheel_specification ''e'' {1}
              [wheel_row (sample_wheel ''AXLE-9'' ''1'') 1] (sample_wheel ''WHEEL-1'' ''1'')))
      (Some ''WHEEL-1'') None None)) =
     Some [wheel_echo (sample_wheel ''WHEEL-1'' ''1'') ''1''] \<and>
   bogie_fits (bogie_row (sample_bogie ''BOGIE-1'' ''1'' ''Fair'' ''FAIR'') 1) \<and>
   data (snd (get_bogie_checksheets ''e'' ascii_upper {1}
      (snd (create_bogie_checksheet ''e'' {1}
              [bogie_row (sample_bogie ''BOGIE-7'' ''1'' ''Good'' ''GOOD'') 1]
              (sample_bogie ''BOGIE-1'' ''1'' ''Fair'' ''FAIR'')))
      (Some ''BOGIE-1'') None None None)) =
     Some [bogie_echo (sample_bogie ''BOGIE-1'' ''1'' ''Fair'' ''FAIR'') ''1'']"
  using create_then_list_round_trip
    [where users = "{1}" and wp = "sample_wheel ''WHEEL-1'' ''1''" and wu = 1
       and wtbl = "[wheel_row (sample_wheel ''AXLE-9'' ''1'') 1]"
       and bp = "sample_bogie ''BOGIE-1'' ''1'' ''Fair'' ''FAIR''" and bu = 1
       and btbl = "[bogie_row (sample_bogie ''BOGIE-7'' ''1'' ''Good'' ''GOOD'') 1]"
       and msg = "''e''" and lmsg = "''e''" and up = ascii_upper]
  by (simp add: sample_wheel_fits sample_bogie_fits fits_samples)
     (simp add: sample_wheel_def [of "''WHEEL-1''"] sample_wheel_def [of "''AXLE-9''"]
      sample_bogie_def [of "''BOGIE-1''"] sample_bogie_def [of "''BOGIE-7''"]
      get_1 py_str_1 wheel_row_form_number bogie_row_form_number
      icontains_round_trip_samples)

text \<open>
  The claim as stated fails twice on one input. The table holds a record with form
  number \<open>AB\<close>; a request with the fresh form number \<open>A\<close> and the user reference
  \<open>01\<close> is created, and the list filtered by \<open>A\<close> returns two records, not one;
  the record of the request carries the user reference \<open>1\<close>, not \<open>01\<close>.
\<close>

theorem create_then_list_round_trip_counterexample:
  "User_objects_get {1} (submitted_by (sample_wheel ''A'' ''01'')) = Inr 1 \<and>
   \<not> wheel_form_number_exists [wheel_row (sample_wheel ''AB'' ''1'') 1]
       (form_number (sample_wheel ''A'' ''01'')) \<and>
   fst (fst (create_wheel_specification ''e'' {1} [wheel_row (sample_wheel ''AB'' ''1'') 1]
               (sample_wheel ''A'' ''01''))) = 201 \<and>
   map formNumber (the (data (snd (get_wheel_specifications ''e'' ascii_upper {1}
      (snd (create_wheel_specification ''e'' {1} [wheel_row (sample_wheel ''AB'' ''1'') 1]
              (sample_wheel ''A'' ''01'')))
      (Some (form_number (sample_wheel ''A'' ''01''))) None None)))) = [''A'', ''AB''] \<and>
   map submittedBy (the (data (snd (get_wheel_specifications ''e'' ascii_upper {1}
      (snd (create_wheel_specification ''e'' {1} [wheel_row (sample_wheel ''AB'' ''1'') 1]
              (sample_wheel ''A'' ''01'')))
      (Some (form_number (sample_wheel ''A'' ''01''))) None None)))) = [''1'', ''1''] \<and>
   submitted_by (sample_wheel ''A'' ''01'') = ''01'' \<and>
   data (snd (get_wheel_specifications ''e'' ascii_upper {1}
      (snd (create_wheel_specification ''e'' {1} [wheel_row (sample_wheel ''AB'' ''1'') 1]
              (sample_wheel ''A'' ''01'')))
      (Some (form_number (sample_wheel ''A'' ''01''))) None None)) \<noteq>
     Some [wheel_echo (sample_wheel ''A'' ''01'') (submitted_by (sample_wheel ''A'' ''01''))]"
proof -
  let ?p = "sample_wheel ''A'' ''01''"
  let ?tbl = "[wheel_row (sample_wheel ''AB'' ''1'') 1]"
  have u: "User_objects_get {1} (submitted_by ?p) = Inr 1"
    by (simp add: sample_wheel_def get_01)
  have fn: "form_number ?p = ''A''" "submitted_by ?p = ''01''"
    by (simp_all add: sample_wheel_def)
  have fresh: "\<not> wheel_form_number_exists ?tbl (form_number ?p)"
    by (simp add: wheel_form_number_exists_def wheel_row_form_number sample_wheel_def)
  have f: "wheel_fits (wheel_row ?p 1)"
    by (simp add: sample_wheel_fits fits_samples)
  have nn: "\<not> has_nul ''A''"
    by (simp add: has_nul_def)
  note c = wheel_create_fresh [OF u fresh fresh f, of "''e''"]
  have l: "data (snd (get_wheel_specifications ''e'' ascii_upper {1}
      (snd (create_wheel_specification ''e'' {1} ?tbl ?p)) (Some (form_number ?p)) None None)) =
      Some [wheel_echo ?p ''1'', wheel_echo (sample_wheel ''AB'' ''1'') ''1'']"
    unfolding create_wheel_specification_def c fn wheel_list_by_form_number [OF nn]
    by (simp add: wheel_row_form_number wheel_response_of_row py_str_1)
       (simp add: sample_wheel_def icontains_round_trip_samples)
  have created: "fst (fst (create_wheel_specification ''e'' {1} ?tbl ?p)) = 201"
    by (simp add: create_wheel_specification_def c)
  have numbers: "map formNumber (the (data (snd (get_wheel_specifications ''e'' ascii_upper {1}
      (snd (create_wheel_specification ''e'' {1} ?tbl ?p))
      (Some (form_number ?p)) None None)))) = [''A'', ''AB'']"
    unfolding l by (simp add: wheel_echo_def sample_wheel_def)
  have refs: "map submittedBy (the (data (snd (get_wheel_specifications ''e'' ascii_upper {1}
      (snd (create_wheel_specification ''e'' {1} ?tbl ?p))
      (Some (form_number ?p)) None None)))) = [''1'', ''1'']"
    unfolding l by (simp add: wheel_echo_def)
  have differs: "data (snd (get_wheel_specifications ''e'' ascii_upper {1}
      (snd (create_wheel_specification ''e'' {1} ?tbl ?p))
      (Some (form_number ?p)) None None)) \<noteq> Some [wheel_echo ?p (submitted_by ?p)]"
    unfolding l by simp
  from u fresh created numbers refs fn(2) differs show ?thesis
    by blast
qed

end
